theory Spec2Isabelle
  imports Main
begin

section \<open>The external store\<close>

text \<open>
  The handlers of \<^verbatim>\<open>backend/src/socket\<close> and \<^verbatim>\<open>backend/src/routes/auth.ts\<close> keep all
  their state in a relational store reached through Prisma.  The store is modelled as a
  record of tables, every table a list of rows in insertion order.  A \<^verbatim>\<open>Date\<close> is a
  number of milliseconds since the epoch.
\<close>

type_synonym date = int

record conversation =
  c_id :: string
  participantOne :: string
  participantTwo :: string
  lastMessageAt :: "date option"

text \<open>\<^verbatim>\<open>MessageType\<close> of the shared types, and its upper-case form in the store.\<close>

datatype message_type = Text | Image | Pdf | Txt | Other_file

datatype stored_message_type = TEXT | IMAGE | PDF | TXT | OTHER_FILE

fun toUpperCase :: "message_type \<Rightarrow> stored_message_type" where
  "toUpperCase Text = TEXT"
| "toUpperCase Image = IMAGE"
| "toUpperCase Pdf = PDF"
| "toUpperCase Txt = TXT"
| "toUpperCase Other_file = OTHER_FILE"

record message =
  m_id :: string
  m_conversationId :: string
  senderId :: string
  content :: "string option"
  messageType :: stored_message_type
  fileUrl :: "string option"
  fileName :: "string option"
  fileSize :: "nat option"
  fileMimeType :: "string option"
  deliveredAt :: "date option"
  isRead :: bool
  readAt :: "date option"

record read_receipt =
  rr_messageId :: string
  rr_userId :: string
  rr_readAt :: date

record user_activity =
  ua_userId :: string
  ua_conversationId :: string
  ua_activityType :: string
  ua_lastActivity :: date

record user =
  u_id :: string
  email :: string
  username :: string
  isOnline :: bool
  lastSeen :: "date option"

record friendship =
  requesterId :: string
  addresseeId :: string
  status :: string

record refresh_token =
  rt_id :: string
  rt_token :: string
  rt_userId :: string
  rt_expiresAt :: date

record db =
  conversations :: "conversation list"
  messages :: "message list"
  receipts :: "read_receipt list"
  activities :: "user_activity list"
  users :: "user list"
  friendships :: "friendship list"
  refreshTokens :: "refresh_token list"

text \<open>
  Every Prisma call is awaited inside a \<^verbatim>\<open>try\<close> block and may throw (lost connection,
  timeout).  A handler run takes a predicate saying which of its calls throw.
\<close>

datatype db_call =
    ConversationFindFirst | ConversationUpdate
  | MessageCreate | MessageFindFirst | MessageUpdate | MessageFindMany | MessageUpdateMany
  | ReceiptUpsert | ReceiptCreateMany
  | ActivityUpsert | ActivityDeleteMany
  | UserFindUnique | UserUpdate | FriendshipFindMany
  | RefreshTokenFindFirst | RefreshTokenDelete | RefreshTokenCreate

definition no_faults :: "db_call \<Rightarrow> bool" where
  "no_faults c = False"

section \<open>Sockets and emitted events\<close>

text \<open>
  An \<^verbatim>\<open>AuthenticatedSocket\<close> that has passed \<^verbatim>\<open>authenticateSocket\<close>: the middleware sets
  \<^verbatim>\<open>socket.userId = user.id\<close> before the connection handlers are installed, so
  \<open>userId\<close> is a string here; \<^verbatim>\<open>!socket.userId\<close> is then the test for the empty string.
  \<open>rooms\<close> is \<^verbatim>\<open>socket.rooms\<close>, which always holds the socket's own id.
\<close>

record socket =
  s_id :: string
  userId :: string
  rooms :: "string list"

text \<open>
  \<open>ToSocket s\<close> is \<^verbatim>\<open>socket.emit\<close>, \<open>ToRoom r\<close> is \<^verbatim>\<open>io.to(r).emit\<close> (every socket in
  the room) and \<open>ToRoomExcept r s\<close> is \<^verbatim>\<open>socket.to(r).emit\<close> (the room without the
  emitting socket).
\<close>

datatype target = ToSocket string | ToRoom string | ToRoomExcept string string

datatype payload =
    ErrorMessage string
  | MessagePayload message
  | DeliveredPayload string "date option"
  | ReadPayload string string date
  | TypingPayload string string
  | UserPayload string
  | OfflinePayload string date

record event =
  ev_target :: target
  ev_name :: string
  ev_payload :: payload

definition emit_error :: "socket \<Rightarrow> string \<Rightarrow> event" where
  "emit_error sock msg =
     \<lparr>ev_target = ToSocket (s_id sock), ev_name = ''error'', ev_payload = ErrorMessage msg\<rparr>"

text \<open>JavaScript truthiness of an optional string, and \<^verbatim>\<open>x || null\<close>.\<close>

definition falsy :: "string option \<Rightarrow> bool" where
  "falsy s = (s = None \<or> s = Some [])"

definition or_null :: "string option \<Rightarrow> string option" where
  "or_null s = (if falsy s then None else s)"

definition or_null_num :: "nat option \<Rightarrow> nat option" where
  "or_null_num n = (if n = None \<or> n = Some 0 then None else n)"

text \<open>
  \<^verbatim>\<open>prisma.conversation.findFirst({ where: { id, OR: [{participantOne: uid},
  {participantTwo: uid}] } })\<close>.
\<close>

definition findConversation :: "string \<Rightarrow> string \<Rightarrow> db \<Rightarrow> conversation option" where
  "findConversation cid uid d =
     find (\<lambda>c. c_id c = cid \<and> (participantOne c = uid \<or> participantTwo c = uid))
       (conversations d)"

section \<open>Message handlers\<close>

record send_message_request =
  rq_conversationId :: string
  rq_content :: "string option"
  rq_messageType :: message_type
  rq_fileUrl :: "string option"
  rq_fileName :: "string option"
  rq_fileSize :: "nat option"
  rq_fileMimeType :: "string option"

text \<open>
  The row \<^verbatim>\<open>prisma.message.create\<close> writes; \<open>new_id\<close> is the id the store assigns and
  \<open>isRead\<close> starts false.  The \<^verbatim>\<open>sender\<close> projection joined into the result is left out
  of the payload.
\<close>

definition new_message :: "string \<Rightarrow> date \<Rightarrow> socket \<Rightarrow> send_message_request \<Rightarrow> message" where
  "new_message new_id t_delivered sock data =
     \<lparr>m_id = new_id,
      m_conversationId = rq_conversationId data,
      senderId = userId sock,
      content = or_null (rq_content data),
      messageType = toUpperCase (rq_messageType data),
      fileUrl = or_null (rq_fileUrl data),
      fileName = or_null (rq_fileName data),
      fileSize = or_null_num (rq_fileSize data),
      fileMimeType = or_null (rq_fileMimeType data),
      deliveredAt = Some t_delivered,
      isRead = False,
      readAt = None\<rparr>"

definition touch_conversation :: "string \<Rightarrow> date \<Rightarrow> db \<Rightarrow> db" where
  "touch_conversation cid t d =
     d\<lparr>conversations :=
         map (\<lambda>c. if c_id c = cid then c\<lparr>lastMessageAt := Some t\<rparr> else c) (conversations d)\<rparr>"

text \<open>
  The \<^verbatim>\<open>send_message\<close> handler.  \<open>t_delivered\<close> and \<open>t_last\<close> are the two
  \<^verbatim>\<open>new Date()\<close> readings.  The result is the store afterwards and the events emitted,
  in order.
\<close>

definition send_message ::
  "(db_call \<Rightarrow> bool) \<Rightarrow> date \<Rightarrow> date \<Rightarrow> string \<Rightarrow> socket \<Rightarrow> send_message_request \<Rightarrow> db
     \<Rightarrow> db \<times> event list" where
  "send_message fails t_delivered t_last new_id sock data d =
     (if fails ConversationFindFirst then (d, [emit_error sock ''Failed to send message''])
      else case findConversation (rq_conversationId data) (userId sock) d of
        None \<Rightarrow> (d, [emit_error sock ''Conversation not found''])
      | Some conv \<Rightarrow>
          if rq_messageType data = Text \<and> falsy (rq_content data)
          then (d, [emit_error sock ''Text messages must have content''])
          else if rq_messageType data \<noteq> Text \<and> falsy (rq_fileUrl data)
          then (d, [emit_error sock ''File messages must have a file URL''])
          else if fails MessageCreate
          then (d, [emit_error sock ''Failed to send message''])
          else
            let msg = new_message new_id t_delivered sock data;
                d1 = d\<lparr>messages := messages d @ [msg]\<rparr>
            in if fails ConversationUpdate
               then (d1, [emit_error sock ''Failed to send message''])
               else (touch_conversation (rq_conversationId data) t_last d1,
                     [\<lparr>ev_target = ToRoom (rq_conversationId data),
                       ev_name = ''message_received'',
                       ev_payload = MessagePayload msg\<rparr>,
                      \<lparr>ev_target = ToSocket (s_id sock),
                       ev_name = ''message_delivered'',
                       ev_payload = DeliveredPayload (m_id msg) (deliveredAt msg)\<rparr>]))"


definition mark_message_read :: "date \<Rightarrow> message \<Rightarrow> message" where
  "mark_message_read t m = m\<lparr>isRead := True, readAt := Some t\<rparr>"

definition same_key :: "string \<Rightarrow> string \<Rightarrow> read_receipt \<Rightarrow> bool" where
  "same_key mid uid r = (rr_messageId r = mid \<and> rr_userId r = uid)"

text \<open>
  \<^verbatim>\<open>prisma.messageReadReceipt.upsert\<close> on the compound key \<^verbatim>\<open>messageId_userId\<close>: the row
  with the key is updated, or a new row is created.  The result is the table and the row
  the call returns.
\<close>

definition upsert_receipt ::
  "string \<Rightarrow> string \<Rightarrow> date \<Rightarrow> date \<Rightarrow> read_receipt list \<Rightarrow> read_receipt list \<times> read_receipt" where
  "upsert_receipt mid uid t_update t_create rs =
     (case find (same_key mid uid) rs of
        Some r \<Rightarrow>
          (map (\<lambda>r'. if same_key mid uid r' then r'\<lparr>rr_readAt := t_update\<rparr> else r') rs,
           r\<lparr>rr_readAt := t_update\<rparr>)
      | None \<Rightarrow>
          (rs @ [\<lparr>rr_messageId = mid, rr_userId = uid, rr_readAt = t_create\<rparr>],
           \<lparr>rr_messageId = mid, rr_userId = uid, rr_readAt = t_create\<rparr>))"

definition read_event :: "string \<Rightarrow> string \<Rightarrow> string \<Rightarrow> string \<Rightarrow> date \<Rightarrow> event" where
  "read_event nm room mid uid t =
     \<lparr>ev_target = ToRoom room, ev_name = nm, ev_payload = ReadPayload mid uid t\<rparr>"

text \<open>
  The \<^verbatim>\<open>mark_read\<close> handler.  \<open>t_msg\<close>, \<open>t_update\<close> and \<open>t_create\<close> are its three
  \<^verbatim>\<open>new Date()\<close> readings.  The message is loaded with its conversation; a message
  whose conversation is gone makes \<^verbatim>\<open>message.conversation.participantOne\<close> throw.
\<close>

definition mark_read ::
  "(db_call \<Rightarrow> bool) \<Rightarrow> date \<Rightarrow> date \<Rightarrow> date \<Rightarrow> socket \<Rightarrow> string \<Rightarrow> db \<Rightarrow> db \<times> event list" where
  "mark_read fails t_msg t_update t_create sock messageId d =
     (if fails MessageFindFirst
      then (d, [emit_error sock ''Failed to mark message as read''])
      else case find (\<lambda>m. m_id m = messageId) (messages d) of
        None \<Rightarrow> (d, [emit_error sock ''Message not found''])
      | Some msg \<Rightarrow>
          (case find (\<lambda>c. c_id c = m_conversationId msg) (conversations d) of
             None \<Rightarrow> (d, [emit_error sock ''Failed to mark message as read''])
           | Some conv \<Rightarrow>
               let isParticipant =
                     (participantOne conv = userId sock \<or> participantTwo conv = userId sock)
               in if \<not> isParticipant \<or> senderId msg = userId sock
                  then (d, [])
                  else if fails MessageUpdate
                  then (d, [emit_error sock ''Failed to mark message as read''])
                  else
                    let d1 = d\<lparr>messages :=
                               map (\<lambda>m. if m_id m = messageId then mark_message_read t_msg m else m)
                                 (messages d)\<rparr>
                    in if fails ReceiptUpsert
                       then (d1, [emit_error sock ''Failed to mark message as read''])
                       else
                         let (rs, readReceipt) =
                               upsert_receipt messageId (userId sock) t_update t_create (receipts d1)
                         in (d1\<lparr>receipts := rs\<rparr>,
                             [read_event ''message_read'' (c_id conv) messageId (userId sock)
                                (rr_readAt readReceipt),
                              read_event ''read_receipt_updated'' (c_id conv) messageId (userId sock)
                                (rr_readAt readReceipt)])))"

text \<open>
  \<^verbatim>\<open>createMany({ data, skipDuplicates: true })\<close>: a row whose key is already in the table
  is skipped.
\<close>

fun createMany_skipDuplicates :: "read_receipt list \<Rightarrow> read_receipt list \<Rightarrow> read_receipt list" where
  "createMany_skipDuplicates [] rs = rs"
| "createMany_skipDuplicates (x # xs) rs =
     createMany_skipDuplicates xs
       (if list_ex (same_key (rr_messageId x) (rr_userId x)) rs then rs else rs @ [x])"

definition unread_from_others :: "string \<Rightarrow> string \<Rightarrow> message \<Rightarrow> bool" where
  "unread_from_others cid uid m =
     (m_conversationId m = cid \<and> senderId m \<noteq> uid \<and> \<not> isRead m)"

text \<open>
  The \<^verbatim>\<open>mark_conversation_read\<close> handler.  \<open>t_msg\<close> is the reading written to the
  messages, \<open>t_rcpt\<close> gives the reading taken for the receipt of each message, and
  \<open>t_emit\<close> is the one sent in the events.
\<close>

definition mark_conversation_read ::
  "(db_call \<Rightarrow> bool) \<Rightarrow> date \<Rightarrow> (string \<Rightarrow> date) \<Rightarrow> date \<Rightarrow> socket \<Rightarrow> string \<Rightarrow> db
     \<Rightarrow> db \<times> event list" where
  "mark_conversation_read fails t_msg t_rcpt t_emit sock conversationId d =
     (if fails ConversationFindFirst
      then (d, [emit_error sock ''Failed to mark conversation as read''])
      else case findConversation conversationId (userId sock) d of
        None \<Rightarrow> (d, [emit_error sock ''Conversation not found''])
      | Some conv \<Rightarrow>
          if fails MessageFindMany
          then (d, [emit_error sock ''Failed to mark conversation as read''])
          else
            let unreadMessages =
                  filter (unread_from_others conversationId (userId sock)) (messages d)
            in if length unreadMessages > 0
               then
                 if fails MessageUpdateMany
                 then (d, [emit_error sock ''Failed to mark conversation as read''])
                 else
                   let d1 = d\<lparr>messages :=
                              map (\<lambda>m. if unread_from_others conversationId (userId sock) m
                                        then mark_message_read t_msg m else m)
                                (messages d)\<rparr>;
                       readReceiptData =
                         map (\<lambda>m. \<lparr>rr_messageId = m_id m, rr_userId = userId sock,
                                    rr_readAt = t_rcpt (m_id m)\<rparr>)
                           unreadMessages
                   in if fails ReceiptCreateMany
                      then (d1, [emit_error sock ''Failed to mark conversation as read''])
                      else (d1\<lparr>receipts := createMany_skipDuplicates readReceiptData (receipts d1)\<rparr>,
                            map (\<lambda>m. read_event ''message_read'' conversationId (m_id m)
                                       (userId sock) t_emit)
                              unreadMessages)
               else (d, []))"

section \<open>Room membership\<close>

text \<open>
  \<^verbatim>\<open>join_conversation\<close> and \<^verbatim>\<open>leave_conversation\<close> change \<^verbatim>\<open>socket.rooms\<close>, a set: joining
  a room twice keeps one entry.  The room joined is named by the conversation id itself.
\<close>

definition join_conversation ::
  "(db_call \<Rightarrow> bool) \<Rightarrow> socket \<Rightarrow> string \<Rightarrow> db \<Rightarrow> socket \<times> event list" where
  "join_conversation fails sock conversationId d =
     (if fails ConversationFindFirst
      then (sock, [emit_error sock ''Failed to join conversation''])
      else case findConversation conversationId (userId sock) d of
        None \<Rightarrow> (sock, [emit_error sock ''Conversation not found''])
      | Some conv \<Rightarrow>
          (sock\<lparr>rooms := (if conversationId \<in> set (rooms sock) then rooms sock
                           else rooms sock @ [conversationId])\<rparr>,
           [\<lparr>ev_target = ToRoomExcept conversationId (s_id sock),
             ev_name = ''user_joined_conversation'',
             ev_payload = UserPayload (userId sock)\<rparr>]))"

definition leave_conversation :: "socket \<Rightarrow> string \<Rightarrow> socket \<times> event list" where
  "leave_conversation sock conversationId =
     (sock\<lparr>rooms := filter (\<lambda>r. r \<noteq> conversationId) (rooms sock)\<rparr>,
      [\<lparr>ev_target = ToRoomExcept conversationId (s_id sock),
        ev_name = ''user_left_conversation'',
        ev_payload = UserPayload (userId sock)\<rparr>])"


section \<open>Activity handlers\<close>

definition typing_key :: "string \<Rightarrow> string \<Rightarrow> user_activity \<Rightarrow> bool" where
  "typing_key uid cid a =
     (ua_userId a = uid \<and> ua_conversationId a = cid \<and> ua_activityType a = ''TYPING'')"

text \<open>
  \<^verbatim>\<open>prisma.userActivity.upsert\<close> on the compound key
  \<^verbatim>\<open>userId_conversationId_activityType\<close>.
\<close>

definition upsert_activity ::
  "string \<Rightarrow> string \<Rightarrow> date \<Rightarrow> date \<Rightarrow> user_activity list \<Rightarrow> user_activity list" where
  "upsert_activity uid cid t_update t_create as =
     (if list_ex (typing_key uid cid) as
      then map (\<lambda>a. if typing_key uid cid a
                     then a\<lparr>ua_activityType := ''TYPING'', ua_lastActivity := t_update\<rparr>
                     else a) as
      else as @ [\<lparr>ua_userId = uid, ua_conversationId = cid, ua_activityType = ''TYPING'',
                  ua_lastActivity = t_create\<rparr>])"

definition typing_event :: "string \<Rightarrow> socket \<Rightarrow> string \<Rightarrow> string \<Rightarrow> event" where
  "typing_event nm sock room cid =
     \<lparr>ev_target = ToRoomExcept room (s_id sock), ev_name = nm,
      ev_payload = TypingPayload (userId sock) cid\<rparr>"

text \<open>
  The \<^verbatim>\<open>typing_start\<close> and \<^verbatim>\<open>typing_stop\<close> handlers.  Their \<^verbatim>\<open>catch\<close> blocks only log,
  so a failing store call ends the handler with nothing emitted.
\<close>

definition typing_start ::
  "(db_call \<Rightarrow> bool) \<Rightarrow> date \<Rightarrow> date \<Rightarrow> socket \<Rightarrow> string \<Rightarrow> db \<Rightarrow> db \<times> event list" where
  "typing_start fails t_update t_create sock conversationId d =
     (if fails ConversationFindFirst then (d, [])
      else case findConversation conversationId (userId sock) d of
        None \<Rightarrow> (d, [])
      | Some conv \<Rightarrow>
          if fails ActivityUpsert then (d, [])
          else (d\<lparr>activities :=
                    upsert_activity (userId sock) conversationId t_update t_create (activities d)\<rparr>,
                [typing_event ''user_typing'' sock conversationId conversationId]))"





text \<open>
  \<^verbatim>\<open>prisma.user.update({ where: { id } })\<close> throws when no row has the id; \<open>None\<close> is
  that throw.
\<close>

definition update_user :: "string \<Rightarrow> bool \<Rightarrow> date \<Rightarrow> db \<Rightarrow> db option" where
  "update_user uid online t d =
     (if list_ex (\<lambda>u. u_id u = uid) (users d)
      then Some (d\<lparr>users :=
                     map (\<lambda>u. if u_id u = uid then u\<lparr>isOnline := online, lastSeen := Some t\<rparr> else u)
                       (users d)\<rparr>)
      else None)"

definition accepted_with :: "string \<Rightarrow> friendship \<Rightarrow> bool" where
  "accepted_with uid f =
     ((requesterId f = uid \<and> status f = ''ACCEPTED'')
      \<or> (addresseeId f = uid \<and> status f = ''ACCEPTED''))"

definition friendIds :: "string \<Rightarrow> db \<Rightarrow> string list" where
  "friendIds uid d =
     map (\<lambda>f. if requesterId f = uid then addresseeId f else requesterId f)
       (filter (accepted_with uid) (friendships d))"

definition startsWith :: "string \<Rightarrow> string \<Rightarrow> bool" where
  "startsWith s p = (take (length p) s = p)"

definition friend_offline_event :: "socket \<Rightarrow> date \<Rightarrow> string \<Rightarrow> event" where
  "friend_offline_event sock t friendId =
     \<lparr>ev_target = ToRoomExcept (''user:'' @ friendId) (s_id sock),
      ev_name = ''friend_offline'',
      ev_payload = OfflinePayload (userId sock) t\<rparr>"

text \<open>
  \<^verbatim>\<open>handleUserOffline\<close>, run on \<^verbatim>\<open>disconnect\<close> and on \<^verbatim>\<open>user_offline\<close>.  \<open>t_seen\<close> is the
  reading written to the user row and \<open>t_emit\<close> the one sent to friends.  The rooms it
  emits the stop-typing event to are the rooms of the socket whose name starts with
  \<^verbatim>\<open>conversation:\<close>; since the name starts with it, \<^verbatim>\<open>room.replace('conversation:', '')\<close>
  drops these 13 characters.
\<close>

definition handleUserOffline ::
  "(db_call \<Rightarrow> bool) \<Rightarrow> date \<Rightarrow> date \<Rightarrow> socket \<Rightarrow> db \<Rightarrow> db \<times> event list" where
  "handleUserOffline fails t_seen t_emit sock d =
     (if userId sock = [] then (d, [])
      else if fails UserUpdate then (d, [])
      else case update_user (userId sock) False t_seen d of
        None \<Rightarrow> (d, [])
      | Some d1 \<Rightarrow>
          if fails ActivityDeleteMany then (d1, [])
          else
            let d2 = d1\<lparr>activities :=
                       filter (\<lambda>a. \<not> (ua_userId a = userId sock \<and> ua_activityType a = ''TYPING''))
                         (activities d1)\<rparr>
            in if fails FriendshipFindMany then (d2, [])
               else
                 let conversationRooms =
                       filter (\<lambda>room. room \<noteq> s_id sock \<and> startsWith room ''conversation:'')
                         (rooms sock)
                 in (d2,
                     map (friend_offline_event sock t_emit) (friendIds (userId sock) d2)
                     @ map (\<lambda>room. typing_event ''user_stopped_typing'' sock room (drop 13 room))
                         conversationRooms))"


section \<open>Credentials\<close>

text \<open>
  \<^verbatim>\<open>utils/auth.ts\<close> signs and verifies tokens with the \<^verbatim>\<open>jsonwebtoken\<close> library.  A
  bearer string is either not a token at all or a signed token, of which the model keeps
  the payload, the secret that signed it, issuer, audience and expiry.  As in the library,
  \<open>jwt_exp\<close> is in whole seconds: a token signed at the clock reading \<open>now\<close> (in
  milliseconds) for \<open>expiresIn\<close> seconds has \<^verbatim>\<open>exp = floor(now / 1000) + expiresIn\<close>, and
  it is expired at a reading \<open>now\<close> when \<^verbatim>\<open>floor(now / 1000) >= exp\<close>.  \<open>jwt_verify\<close> is
  the library's \<^verbatim>\<open>jwt.verify\<close> with the options the source passes.
\<close>

record token_payload =
  tp_userId :: string
  tp_email :: string
  tp_username :: string

record jwt =
  jwt_payload :: token_payload
  jwt_secret :: string
  jwt_issuer :: string
  jwt_audience :: string
  jwt_exp :: int

datatype token = Opaque string | Signed jwt

datatype jwt_error = JsonWebTokenError | TokenExpiredError | NotBeforeError

definition JWT_ACCESS_SECRET :: string where
  "JWT_ACCESS_SECRET = ''fallback-access-secret''"

definition JWT_REFRESH_SECRET :: string where
  "JWT_REFRESH_SECRET = ''fallback-refresh-secret''"

definition jwt_verify :: "string \<Rightarrow> date \<Rightarrow> token \<Rightarrow> jwt_error + token_payload" where
  "jwt_verify secret now tok =
     (case tok of
        Opaque s \<Rightarrow> Inl JsonWebTokenError
      | Signed j \<Rightarrow>
          if jwt_secret j \<noteq> secret then Inl JsonWebTokenError
          else if jwt_exp j \<le> now div 1000 then Inl TokenExpiredError
          else if jwt_audience j \<noteq> ''toff-client'' then Inl JsonWebTokenError
          else if jwt_issuer j \<noteq> ''toff-api'' then Inl JsonWebTokenError
          else Inr (jwt_payload j))"

definition jwt_sign :: "token_payload \<Rightarrow> string \<Rightarrow> date \<Rightarrow> int \<Rightarrow> token" where
  "jwt_sign p secret now expiresIn =
     Signed \<lparr>jwt_payload = p, jwt_secret = secret, jwt_issuer = ''toff-api'',
             jwt_audience = ''toff-client'', jwt_exp = now div 1000 + expiresIn\<rparr>"

text \<open>\<^verbatim>\<open>generateTokens\<close>: an access token for 15 minutes and a refresh token for 7 days.\<close>

definition generateTokens :: "date \<Rightarrow> token_payload \<Rightarrow> token \<times> token" where
  "generateTokens now p =
     (jwt_sign p JWT_ACCESS_SECRET now (15 * 60),
      jwt_sign p JWT_REFRESH_SECRET now (7 * 24 * 60 * 60))"

definition verifyAccessToken :: "date \<Rightarrow> token \<Rightarrow> string + token_payload" where
  "verifyAccessToken now tok =
     (case jwt_verify JWT_ACCESS_SECRET now tok of
        Inr p \<Rightarrow> Inr p
      | Inl TokenExpiredError \<Rightarrow> Inl ''Token expired''
      | Inl JsonWebTokenError \<Rightarrow> Inl ''Invalid token format''
      | Inl NotBeforeError \<Rightarrow> Inl ''Token not active'')"

definition verifyRefreshToken :: "date \<Rightarrow> token \<Rightarrow> string + token_payload" where
  "verifyRefreshToken now tok =
     (case jwt_verify JWT_REFRESH_SECRET now tok of
        Inr p \<Rightarrow> Inr p
      | Inl e \<Rightarrow> Inl ''Invalid refresh token'')"

section \<open>The socket handshake and the connection table\<close>

text \<open>
  \<^verbatim>\<open>authenticateSocket\<close>, the middleware of every handshake.  \<open>tok\<close> is the value of
  \<^verbatim>\<open>socket.handshake.auth.token || ...authorization?.split(' ')[1]\<close>, \<open>None\<close> when it
  is falsy.  \<open>Inl\<close> is the message of the error passed to \<^verbatim>\<open>next\<close>; \<open>Inr\<close> is the
  authenticated socket and the store.
\<close>

definition authenticateSocket ::
  "(db_call \<Rightarrow> bool) \<Rightarrow> date \<Rightarrow> date \<Rightarrow> string \<Rightarrow> token option \<Rightarrow> db \<Rightarrow> string + (socket \<times> db)" where
  "authenticateSocket fails now t_seen sid tok d =
     (case tok of
        None \<Rightarrow> Inl ''Authentication token required''
      | Some t \<Rightarrow>
          (case verifyAccessToken now t of
             Inl e \<Rightarrow> Inl ''Invalid access token''
           | Inr decoded \<Rightarrow>
               if fails UserFindUnique then Inl ''Authentication failed''
               else (case find (\<lambda>u. u_id u = tp_userId decoded) (users d) of
                 None \<Rightarrow> Inl ''User not found''
               | Some usr \<Rightarrow>
                   if fails UserUpdate then Inl ''Authentication failed''
                   else (case update_user (u_id usr) True t_seen d of
                     None \<Rightarrow> Inl ''Authentication failed''
                   | Some d1 \<Rightarrow>
                       Inr (\<lparr>s_id = sid, userId = u_id usr, rooms = [sid]\<rparr>, d1)))))"

text \<open>
  The server of \<^verbatim>\<open>index.ts\<close>: the store and the sockets Socket.IO holds connected.
  \<^verbatim>\<open>io.use(authenticateSocket)\<close> admits a socket, and the \<^verbatim>\<open>disconnect\<close> listener of
  \<^verbatim>\<open>setupActivityHandlers\<close> runs \<^verbatim>\<open>handleUserOffline\<close> for the socket that left.  Socket.IO
  has taken the socket out of all its rooms when that listener runs, so the handler sees
  \<^verbatim>\<open>socket.rooms\<close> empty.
\<close>

record server =
  srv_db :: db
  srv_sockets :: "socket list"

definition socket_connect ::
  "(db_call \<Rightarrow> bool) \<Rightarrow> date \<Rightarrow> date \<Rightarrow> string \<Rightarrow> token option \<Rightarrow> server \<Rightarrow> server \<times> string option" where
  "socket_connect fails now t_seen sid tok srv =
     (case authenticateSocket fails now t_seen sid tok (srv_db srv) of
        Inl e \<Rightarrow> (srv, Some e)
      | Inr (sock, d1) \<Rightarrow>
          (srv\<lparr>srv_db := d1, srv_sockets := srv_sockets srv @ [sock]\<rparr>, None))"

definition socket_disconnect ::
  "(db_call \<Rightarrow> bool) \<Rightarrow> date \<Rightarrow> date \<Rightarrow> string \<Rightarrow> server \<Rightarrow> server \<times> event list" where
  "socket_disconnect fails t_seen t_emit sid srv =
     (case find (\<lambda>s. s_id s = sid) (srv_sockets srv) of
        None \<Rightarrow> (srv, [])
      | Some sock \<Rightarrow>
          let (d1, evs) = handleUserOffline fails t_seen t_emit (sock\<lparr>rooms := []\<rparr>) (srv_db srv)
          in (srv\<lparr>srv_db := d1,
                  srv_sockets := filter (\<lambda>s. s_id s \<noteq> sid) (srv_sockets srv)\<rparr>,
              evs))"

text \<open>
  The PresenceEntry of a user read off the server: the online flag is the \<open>isOnline\<close>
  column, the connection-ids are the connected sockets of the user.
\<close>

definition connection_ids :: "string \<Rightarrow> server \<Rightarrow> string list" where
  "connection_ids uid srv = map s_id (filter (\<lambda>s. userId s = uid) (srv_sockets srv))"

definition presence_ok :: "server \<Rightarrow> user \<Rightarrow> bool" where
  "presence_ok srv u = (isOnline u = (connection_ids (u_id u) srv \<noteq> []))"

definition presence_invariant :: "server \<Rightarrow> bool" where
  "presence_invariant srv = list_all (presence_ok srv) (users (srv_db srv))"

section \<open>Refreshing the credential pair\<close>

datatype refresh_body = ErrorBody string | AuthBody user token token

record http_response =
  res_status :: nat
  res_body :: refresh_body

definition invalid_refresh :: http_response where
  "invalid_refresh = \<lparr>res_status = 401, res_body = ErrorBody ''Invalid refresh token''\<rparr>"

text \<open>
  The handler of \<^verbatim>\<open>POST /refresh\<close>, after the validation middleware.  \<open>t_verify\<close>,
  \<open>t_query\<close>, \<open>t_sign\<close> and \<open>t_expiry\<close> are the clock readings of the verification, of
  the query, of \<^verbatim>\<open>generateTokens\<close> and of \<^verbatim>\<open>tokenExpiry\<close>; \<open>new_id\<close> and \<open>secure\<close>
  are the id the store gives the new row and the value of \<^verbatim>\<open>generateSecureToken()\<close>.
  \<^verbatim>\<open>tokenExpiry.setDate(tokenExpiry.getDate() + 7)\<close> moves the reading seven calendar days
  on in the server's local time: seven times 24 hours, less \<open>clock_change\<close>, the time by
  which the local clock is put forward within these days (0 when it is not changed,
  negative when it is put back).  The stored row is looked up by user id and expiry, and
  joined with its user.
\<close>

definition refresh ::
  "(db_call \<Rightarrow> bool) \<Rightarrow> date \<Rightarrow> date \<Rightarrow> date \<Rightarrow> date \<Rightarrow> int \<Rightarrow> string \<Rightarrow> string \<Rightarrow> token \<Rightarrow> db
     \<Rightarrow> db \<times> http_response" where
  "refresh fails t_verify t_query t_sign t_expiry clock_change new_id secure refreshToken d =
     (case verifyRefreshToken t_verify refreshToken of
        Inl e \<Rightarrow> (d, invalid_refresh)
      | Inr decoded \<Rightarrow>
          if fails RefreshTokenFindFirst then (d, invalid_refresh)
          else (case find (\<lambda>r. rt_userId r = tp_userId decoded \<and> rt_expiresAt r > t_query)
                      (refreshTokens d) of
            None \<Rightarrow> (d, invalid_refresh)
          | Some storedToken \<Rightarrow>
              (case find (\<lambda>u. u_id u = rt_userId storedToken) (users d) of
                 None \<Rightarrow> (d, invalid_refresh)
               | Some usr \<Rightarrow>
                   let (accessToken, newRefreshToken) =
                         generateTokens t_sign
                           \<lparr>tp_userId = u_id usr, tp_email = email usr, tp_username = username usr\<rparr>
                   in if fails RefreshTokenDelete then (d, invalid_refresh)
                      else
                        let d1 = d\<lparr>refreshTokens :=
                                   filter (\<lambda>r. rt_id r \<noteq> rt_id storedToken) (refreshTokens d)\<rparr>
                        in if fails RefreshTokenCreate then (d1, invalid_refresh)
                           else
                             (d1\<lparr>refreshTokens := refreshTokens d1 @
                                   [\<lparr>rt_id = new_id, rt_token = secure, rt_userId = u_id usr,
                                     rt_expiresAt =
                                       t_expiry + 7 * 24 * 60 * 60 * 1000 - clock_change\<rparr>]\<rparr>,
                              \<lparr>res_status = 200,
                               res_body = AuthBody usr accessToken newRefreshToken\<rparr>))))"


section \<open>The client's socket connection\<close>

text \<open>
  \<^verbatim>\<open>socket-provider.tsx\<close>, \<^verbatim>\<open>tokenManager.ts\<close>, \<^verbatim>\<open>api.ts\<close> and the auth store.  The
  client keeps the credential pair in local storage.  \<open>cl_refreshPromise\<close> says that
  \<^verbatim>\<open>ApiClient.refreshPromise\<close> is set; \<open>trace\<close> records what the client did, in order.
\<close>

datatype action = Handshake | RefreshCall | SocketDisconnect | Logout

record client =
  cl_accessToken :: "token option"
  cl_refreshToken :: "token option"
  cl_refreshPromise :: bool
  isAuthenticated :: bool
  isConnected :: bool
  trace :: "action list"

definition handshakes :: "client \<Rightarrow> nat" where
  "handshakes cl = count_list (trace cl) Handshake"

definition refreshes :: "client \<Rightarrow> nat" where
  "refreshes cl = count_list (trace cl) RefreshCall"

definition logouts :: "client \<Rightarrow> nat" where
  "logouts cl = count_list (trace cl) Logout"

text \<open>
  \<^verbatim>\<open>TokenManager.getTokenInfo\<close>: no access token, a token whose payload does not
  decode, or a decoded token with \<^verbatim>\<open>isExpired = payload.exp < Date.now() / 1000\<close>, a
  comparison of seconds that is not rounded: \<open>exp * 1000 < now\<close> in milliseconds.
\<close>

datatype token_info = NoTokens | InvalidFormat | Info bool

definition getTokenInfo :: "date \<Rightarrow> client \<Rightarrow> token_info" where
  "getTokenInfo now cl =
     (case cl_accessToken cl of
        None \<Rightarrow> NoTokens
      | Some (Opaque s) \<Rightarrow> InvalidFormat
      | Some (Signed j) \<Rightarrow> Info (jwt_exp j * 1000 < now))"

text \<open>
  The reply to \<^verbatim>\<open>POST /api/auth/refresh\<close>: the new pair, status 401, or any other
  failure (another status, no reply).  How an awaited promise ends: resolved, rejected,
  or never settled.
\<close>

datatype http_reply = Http200 token token | Http401 | HttpFailure

datatype settled = Resolved | Rejected | Pending

text \<open>
  \<^verbatim>\<open>ApiClient.refreshAccessToken\<close>.  A pending \<^verbatim>\<open>refreshPromise\<close> is returned as it is.
  Without a stored refresh token the call throws before any request.  A reply 401 reaches
  the response interceptor, which (the request not yet marked \<^verbatim>\<open>_retry\<close>) awaits
  \<^verbatim>\<open>refreshAccessToken()\<close>, that is the very promise waiting for the interceptor: the
  promise never settles and \<^verbatim>\<open>refreshPromise\<close> stays set.
\<close>

definition refreshAccessToken :: "http_reply \<Rightarrow> client \<Rightarrow> client \<times> settled" where
  "refreshAccessToken reply cl =
     (if cl_refreshPromise cl then (cl, Pending)
      else case cl_refreshToken cl of
        None \<Rightarrow> (cl, Rejected)
      | Some rt \<Rightarrow>
          let cl1 = cl\<lparr>trace := trace cl @ [RefreshCall]\<rparr>
          in (case reply of
                Http200 a r \<Rightarrow>
                  (cl1\<lparr>cl_accessToken := Some a, cl_refreshToken := Some r\<rparr>, Resolved)
              | Http401 \<Rightarrow> (cl1\<lparr>cl_refreshPromise := True\<rparr>, Pending)
              | HttpFailure \<Rightarrow> (cl1, Rejected)))"

text \<open>
  \<^verbatim>\<open>TokenManager.ensureValidToken\<close>: throws without tokens, refreshes an expired token
  (\<^verbatim>\<open>isExpired\<close> is undefined, so falsy, for a token that does not decode).
\<close>

definition ensureValidToken :: "date \<Rightarrow> http_reply \<Rightarrow> client \<Rightarrow> client \<times> settled" where
  "ensureValidToken now reply cl =
     (case getTokenInfo now cl of
        NoTokens \<Rightarrow> (cl, Rejected)
      | InvalidFormat \<Rightarrow> (cl, Resolved)
      | Info isExpired \<Rightarrow> if isExpired then refreshAccessToken reply cl else (cl, Resolved))"

text \<open>
  \<^verbatim>\<open>logout\<close> of the auth store: \<^verbatim>\<open>apiClient.logout()\<close> clears both tokens whatever the
  server answers, then the store becomes unauthenticated.
\<close>

definition logout :: "client \<Rightarrow> client" where
  "logout cl =
     cl\<lparr>cl_accessToken := None, cl_refreshToken := None, isAuthenticated := False,
        trace := trace cl @ [Logout]\<rparr>"

text \<open>\<^verbatim>\<open>String.prototype.includes\<close>, and the test of the \<^verbatim>\<open>connect_error\<close> listener.\<close>

fun includes_str :: "string \<Rightarrow> string \<Rightarrow> bool" where
  "includes_str [] p = (p = [])"
| "includes_str (c # cs) p = (startsWith (c # cs) p \<or> includes_str cs p)"

definition authentication_error :: "string \<Rightarrow> bool" where
  "authentication_error msg =
     (includes_str msg ''Authentication'' \<or> includes_str msg ''Invalid access token'')"

text \<open>
  What the client meets: the clock at its \<open>k\<close>-th connection attempt, the reply to its
  \<open>k\<close>-th refresh call, and the outcome of its \<open>k\<close>-th handshake with the token it
  presents (\<open>None\<close>: connected; \<open>Some msg\<close>: \<^verbatim>\<open>connect_error\<close> with that message).
\<close>

record env =
  env_now :: "nat \<Rightarrow> date"
  env_refresh :: "nat \<Rightarrow> http_reply"
  env_handshake :: "nat \<Rightarrow> token \<Rightarrow> string option"

text \<open>
  \<^verbatim>\<open>connectSocket\<close>.  Every socket it creates gets the same \<^verbatim>\<open>connect_error\<close> listener,
  which after a successful refresh disconnects and calls \<^verbatim>\<open>connectSocket\<close> again one
  second later.  The first argument bounds the number of connection attempts followed;
  at 0 the next attempt is still to come.  \<open>k\<close> counts the attempts made.
\<close>

fun connectSocket :: "nat \<Rightarrow> env \<Rightarrow> nat \<Rightarrow> client \<Rightarrow> client" where
  "connectSocket 0 e k cl = cl"
| "connectSocket (Suc n) e k cl =
     (case ensureValidToken (env_now e k) (env_refresh e (refreshes cl)) cl of
        (cl1, Rejected) \<Rightarrow> logout cl1
      | (cl1, Pending) \<Rightarrow> cl1
      | (cl1, Resolved) \<Rightarrow>
          (case cl_accessToken cl1 of
             None \<Rightarrow> cl1
           | Some tok \<Rightarrow>
               (case env_handshake e (handshakes cl1) tok of
                  None \<Rightarrow> cl1\<lparr>isConnected := True, trace := trace cl1 @ [Handshake]\<rparr>
                | Some msg \<Rightarrow>
                    let cl2 = cl1\<lparr>isConnected := False, trace := trace cl1 @ [Handshake]\<rparr>
                    in if authentication_error msg
                       then (case refreshAccessToken (env_refresh e (refreshes cl2)) cl2 of
                               (cl3, Resolved) \<Rightarrow>
                                 connectSocket n e (Suc k)
                                   (cl3\<lparr>trace := trace cl3 @ [SocketDisconnect]\<rparr>)
                             | (cl3, Rejected) \<Rightarrow> logout cl3
                             | (cl3, Pending) \<Rightarrow> cl3)
                       else cl2)))"


section \<open>Observations on event lists\<close>

definition named :: "string \<Rightarrow> event \<Rightarrow> bool" where
  "named nm e = (ev_name e = nm)"

definition events_named :: "string \<Rightarrow> event list \<Rightarrow> event list" where
  "events_named nm evs = filter (named nm) evs"

definition receipts_for :: "string \<Rightarrow> string \<Rightarrow> db \<Rightarrow> read_receipt list" where
  "receipts_for mid uid d = filter (same_key mid uid) (receipts d)"

definition typing_rows :: "string \<Rightarrow> string \<Rightarrow> db \<Rightarrow> user_activity list" where
  "typing_rows uid cid d = filter (typing_key uid cid) (activities d)"

text \<open>
  The compound key \<^verbatim>\<open>messageId_userId\<close> of a receipt; a table satisfies the key's
  uniqueness when no two rows share it.
\<close>

definition receipt_key :: "read_receipt \<Rightarrow> string \<times> string" where
  "receipt_key r = (rr_messageId r, rr_userId r)"

definition receipts_unique :: "read_receipt list \<Rightarrow> bool" where
  "receipts_unique rs = distinct (map receipt_key rs)"

section \<open>Example states\<close>

text \<open>
  Alice talks to Bob in conversation \<open>c1\<close> and to Carol in \<open>c2\<close>; Bob is her accepted
  friend; Bob has sent her one message, Alice has sent him one.
\<close>

definition alice :: socket where
  "alice = \<lparr>s_id = ''s1'', userId = ''alice'', rooms = [''s1'']\<rparr>"

definition bob :: socket where
  "bob = \<lparr>s_id = ''s7'', userId = ''bob'', rooms = [''s7'']\<rparr>"

definition store0 :: db where
  "store0 =
     \<lparr>conversations =
        [\<lparr>c_id = ''c1'', participantOne = ''alice'', participantTwo = ''bob'',
          lastMessageAt = None\<rparr>,
         \<lparr>c_id = ''c2'', participantOne = ''carol'', participantTwo = ''alice'',
          lastMessageAt = None\<rparr>],
      messages =
        [\<lparr>m_id = ''m1'', m_conversationId = ''c1'', senderId = ''bob'', content = Some ''hi'',
          messageType = TEXT, fileUrl = None, fileName = None, fileSize = None,
          fileMimeType = None, deliveredAt = Some 1, isRead = False, readAt = None\<rparr>,
         \<lparr>m_id = ''m2'', m_conversationId = ''c1'', senderId = ''alice'', content = Some ''yo'',
          messageType = TEXT, fileUrl = None, fileName = None, fileSize = None,
          fileMimeType = None, deliveredAt = Some 2, isRead = False, readAt = None\<rparr>],
      receipts = [],
      activities = [],
      users =
        [\<lparr>u_id = ''alice'', email = ''a@x.io'', username = ''alice'', isOnline = False,
          lastSeen = None\<rparr>,
         \<lparr>u_id = ''bob'', email = ''b@x.io'', username = ''bob'', isOnline = False,
          lastSeen = None\<rparr>],
      friendships =
        [\<lparr>requesterId = ''bob'', addresseeId = ''alice'', status = ''ACCEPTED''\<rparr>],
      refreshTokens =
        [\<lparr>rt_id = ''r1'', rt_token = ''9f3a'', rt_userId = ''alice'',
          rt_expiresAt = 604800000\<rparr>]\<rparr>"

definition empty_text :: send_message_request where
  "empty_text =
     \<lparr>rq_conversationId = ''c1'', rq_content = Some [], rq_messageType = Text,
      rq_fileUrl = None, rq_fileName = None, rq_fileSize = None, rq_fileMimeType = None\<rparr>"

definition bare_file :: send_message_request where
  "bare_file =
     \<lparr>rq_conversationId = ''c1'', rq_content = None, rq_messageType = Pdf,
      rq_fileUrl = Some ''https://files/a.pdf'', rq_fileName = Some ''a.pdf'',
      rq_fileSize = Some 10, rq_fileMimeType = Some ''application/pdf''\<rparr>"

definition create_fails :: "db_call \<Rightarrow> bool" where
  "create_fails c = (c = MessageCreate)"

text \<open>
  Alice's socket after \<^verbatim>\<open>join_conversation\<close> for \<open>c1\<close> and for \<open>c2\<close>, and the store
  after her \<^verbatim>\<open>typing_start\<close> in \<open>c1\<close>.
\<close>

definition alice_joined :: socket where
  "alice_joined =
     fst (join_conversation no_faults (fst (join_conversation no_faults alice ''c1'' store0))
            ''c2'' store0)"

definition store_typing :: db where
  "store_typing = fst (typing_start no_faults 100 100 alice_joined ''c1'' store0)"

text \<open>A server whose only connection is that socket of Alice, while she is typing.\<close>

definition typing_server :: server where
  "typing_server = \<lparr>srv_db = store_typing, srv_sockets = [alice_joined]\<rparr>"

text \<open>
  Alice's credential pair, issued at time 0, and a server on which she has opened two
  connections, \<open>s1\<close> and \<open>s2\<close>.
\<close>

definition alice_payload :: token_payload where
  "alice_payload = \<lparr>tp_userId = ''alice'', tp_email = ''a@x.io'', tp_username = ''alice''\<rparr>"

definition alice_access :: token where
  "alice_access = fst (generateTokens 0 alice_payload)"

definition alice_refresh :: token where
  "alice_refresh = snd (generateTokens 0 alice_payload)"

definition server0 :: server where
  "server0 = \<lparr>srv_db = store0, srv_sockets = []\<rparr>"

definition one_connection :: server where
  "one_connection = fst (socket_connect no_faults 1000 1000 ''s1'' (Some alice_access) server0)"

definition two_connections :: server where
  "two_connections =
     fst (socket_connect no_faults 2000 2000 ''s2'' (Some alice_access) one_connection)"

text \<open>
  A client holding Alice's pair, and surroundings in which every handshake is rejected
  with ``Invalid access token'' while every refresh call returns a new pair.
\<close>

definition client0 :: client where
  "client0 =
     \<lparr>cl_accessToken = Some alice_access, cl_refreshToken = Some alice_refresh,
      cl_refreshPromise = False, isAuthenticated = True, isConnected = False, trace = []\<rparr>"

definition rejecting :: env where
  "rejecting =
     \<lparr>env_now = (\<lambda>k. 1000),
      env_refresh = (\<lambda>k. Http200 alice_access alice_refresh),
      env_handshake = (\<lambda>k tok. Some ''Invalid access token'')\<rparr>"

definition refresh_down :: env where
  "refresh_down =
     \<lparr>env_now = (\<lambda>k. 1000),
      env_refresh = (\<lambda>k. HttpFailure),
      env_handshake = (\<lambda>k tok. Some ''Invalid access token'')\<rparr>"

definition token_create_fails :: "db_call \<Rightarrow> bool" where
  "token_create_fails c = (c = RefreshTokenCreate)"

section \<open>Sending a message\<close>

text \<open>
  C5.  The \<^verbatim>\<open>send_message\<close> handler validates the payload by message kind.  For a
  participant of the conversation: a text message whose content is empty or absent is
  answered with the error ``Text messages must have content'', the store is unchanged and
  nothing is broadcast; a message of another kind without a file URL is answered with
  ``File messages must have a file URL''; a text message with content is accepted whatever
  its file URL is, and a message of another kind with a file URL is accepted whatever its
  content is (in particular without content): it is stored, broadcast to the room and
  acknowledged to the sender.
\<close>

theorem send_message_validates_by_kind:
  assumes "findConversation (rq_conversationId data) (userId sock) d = Some conv"
    and "\<not> fails ConversationFindFirst"
  shows "(rq_messageType data = Text \<and> falsy (rq_content data) \<longrightarrow>
            send_message fails t1 t2 new_id sock data d
              = (d, [emit_error sock ''Text messages must have content'']))
       \<and> (rq_messageType data \<noteq> Text \<and> falsy (rq_fileUrl data) \<longrightarrow>
            send_message fails t1 t2 new_id sock data d
              = (d, [emit_error sock ''File messages must have a file URL'']))
       \<and> (((rq_messageType data = Text \<and> \<not> falsy (rq_content data))
             \<or> (rq_messageType data \<noteq> Text \<and> \<not> falsy (rq_fileUrl data)))
            \<and> \<not> fails MessageCreate \<and> \<not> fails ConversationUpdate \<longrightarrow>
            send_message fails t1 t2 new_id sock data d
              = (touch_conversation (rq_conversationId data) t2
                   (d\<lparr>messages := messages d @ [new_message new_id t1 sock data]\<rparr>),
                 [\<lparr>ev_target = ToRoom (rq_conversationId data), ev_name = ''message_received'',
                   ev_payload = MessagePayload (new_message new_id t1 sock data)\<rparr>,
                  \<lparr>ev_target = ToSocket (s_id sock), ev_name = ''message_delivered'',
                   ev_payload = DeliveredPayload new_id (Some t1)\<rparr>]))"
  using assms
  by (auto simp: send_message_def Let_def new_message_def)

theorem send_message_validates_by_kind_witness:
  "send_message no_faults 5 6 ''m3'' alice empty_text store0
     = (store0, [emit_error alice ''Text messages must have content''])
   \<and> send_message no_faults 5 6 ''m3'' alice bare_file store0
     = (touch_conversation ''c1'' 6
          (store0\<lparr>messages := messages store0 @ [new_message ''m3'' 5 alice bare_file]\<rparr>),
        [\<lparr>ev_target = ToRoom ''c1'', ev_name = ''message_received'',
          ev_payload = MessagePayload (new_message ''m3'' 5 alice bare_file)\<rparr>,
         \<lparr>ev_target = ToSocket ''s1'', ev_name = ''message_delivered'',
          ev_payload = DeliveredPayload ''m3'' (Some 5)\<rparr>])
   \<and> content (new_message ''m3'' 5 alice bare_file) = None"
proof -
  have c1: "findConversation (rq_conversationId empty_text) (userId alice) store0
            = Some (hd (conversations store0))"
    by (simp add: findConversation_def empty_text_def alice_def store0_def)
  have c2: "findConversation (rq_conversationId bare_file) (userId alice) store0
            = Some (hd (conversations store0))"
    by (simp add: findConversation_def bare_file_def alice_def store0_def)
  have nf: "\<not> no_faults ConversationFindFirst" by (simp add: no_faults_def)
  show ?thesis
    using send_message_validates_by_kind
            [where data = empty_text and sock = alice and d = store0 and fails = no_faults
               and ?t1.0 = 5 and ?t2.0 = 6 and new_id = "''m3''", OF c1 nf]
          send_message_validates_by_kind
            [where data = bare_file and sock = alice and d = store0 and fails = no_faults
               and ?t1.0 = 5 and ?t2.0 = 6 and new_id = "''m3''", OF c2 nf]
    by (simp add: empty_text_def bare_file_def falsy_def no_faults_def alice_def
                  new_message_def or_null_def)
qed

text \<open>
  C6.  When the store fails while persisting a sent message (the creation of the message
  row, or the update of the conversation after it), the handler emits exactly one event:
  an \<^verbatim>\<open>error\<close> event to the socket that sent the message.  No \<^verbatim>\<open>message_received\<close> is
  broadcast to the room and no \<^verbatim>\<open>message_delivered\<close> acknowledgement is emitted.
\<close>

theorem send_message_persistence_failure:
  assumes "fails MessageCreate \<or> fails ConversationUpdate"
  shows "(\<exists>msg. snd (send_message fails t1 t2 new_id sock data d) = [emit_error sock msg])
       \<and> events_named ''message_received'' (snd (send_message fails t1 t2 new_id sock data d)) = []
       \<and> events_named ''message_delivered'' (snd (send_message fails t1 t2 new_id sock data d)) = []
       \<and> length (events_named ''error'' (snd (send_message fails t1 t2 new_id sock data d))) = 1
       \<and> list_all (\<lambda>e. ev_target e = ToSocket (s_id sock))
            (snd (send_message fails t1 t2 new_id sock data d))"
  using assms
  by (auto simp: send_message_def Let_def events_named_def named_def emit_error_def
           split: option.splits)

theorem send_message_persistence_failure_witness:
  "snd (send_message create_fails 5 6 ''m3'' alice bare_file store0)
     = [emit_error alice ''Failed to send message'']
   \<and> fst (send_message create_fails 5 6 ''m3'' alice bare_file store0) = store0"
proof -
  have f: "create_fails MessageCreate \<or> create_fails ConversationUpdate"
    by (simp add: create_fails_def)
  have c2: "findConversation (rq_conversationId bare_file) (userId alice) store0
            = Some (hd (conversations store0))"
    by (simp add: findConversation_def bare_file_def alice_def store0_def)
  show ?thesis
    using send_message_persistence_failure [OF f, of 5 6 "''m3''" alice bare_file store0] c2
    by (simp add: send_message_def create_fails_def bare_file_def falsy_def)
qed

section \<open>Read receipts\<close>

lemma same_key_iff: "same_key mid uid r = (receipt_key r = (mid, uid))"
  by (auto simp: same_key_def receipt_key_def)

lemma find_None_filter: "find P xs = None \<Longrightarrow> filter P xs = []"
  by (induction xs) (auto split: if_splits)

lemma filter_key_update:
  "filter (same_key mid uid) (map (\<lambda>r. if same_key mid uid r then r\<lparr>rr_readAt := t\<rparr> else r) rs)
     = map (\<lambda>r. r\<lparr>rr_readAt := t\<rparr>) (filter (same_key mid uid) rs)"
  by (induction rs) (auto simp: same_key_def)

lemma keys_update:
  "map receipt_key (map (\<lambda>r. if same_key mid uid r then r\<lparr>rr_readAt := t\<rparr> else r) rs)
     = map receipt_key rs"
  by (induction rs) (auto simp: receipt_key_def)

lemma unique_filter_one:
  assumes "receipts_unique rs" and "find (same_key mid uid) rs = Some r"
  shows "filter (same_key mid uid) rs = [r]"
  using assms
proof (induction rs)
  case Nil
  then show ?case by simp
next
  case (Cons a rs)
  show ?case
  proof (cases "same_key mid uid a")
    case True
    with Cons.prems have ar: "a = r" by simp
    from Cons.prems True have "receipt_key a \<notin> set (map receipt_key rs)"
      by (simp add: receipts_unique_def)
    with True have "filter (same_key mid uid) rs = []"
      by (force simp: filter_empty_conv same_key_iff)
    with True ar show ?thesis by simp
  next
    case False
    with Cons show ?thesis by (simp add: receipts_unique_def)
  qed
qed

lemma keyed_row:
  "same_key mid uid r \<Longrightarrow> r\<lparr>rr_readAt := t\<rparr> = \<lparr>rr_messageId = mid, rr_userId = uid, rr_readAt = t\<rparr>"
  by (cases r) (simp add: same_key_def)

lemma upsert_receipt_found:
  assumes "find (same_key mid uid) rs = Some r"
  shows "fst (upsert_receipt mid uid tu tc rs)
           = map (\<lambda>r'. if same_key mid uid r' then r'\<lparr>rr_readAt := tu\<rparr> else r') rs"
    and "snd (upsert_receipt mid uid tu tc rs) = r\<lparr>rr_readAt := tu\<rparr>"
  using assms by (simp_all add: upsert_receipt_def)

lemma upsert_receipt_fresh:
  assumes "find (same_key mid uid) rs = None"
  shows "fst (upsert_receipt mid uid tu tc rs)
           = rs @ [\<lparr>rr_messageId = mid, rr_userId = uid, rr_readAt = tc\<rparr>]"
    and "snd (upsert_receipt mid uid tu tc rs)
           = \<lparr>rr_messageId = mid, rr_userId = uid, rr_readAt = tc\<rparr>"
  using assms by (simp_all add: upsert_receipt_def)

lemma upsert_receipt_rows:
  assumes "receipts_unique rs"
  shows "filter (same_key mid uid) (fst (upsert_receipt mid uid tu tc rs))
           = [snd (upsert_receipt mid uid tu tc rs)]"
proof (cases "find (same_key mid uid) rs")
  case None
  have "same_key mid uid \<lparr>rr_messageId = mid, rr_userId = uid, rr_readAt = tc\<rparr>"
    by (simp add: same_key_def)
  with None show ?thesis
    by (simp add: upsert_receipt_fresh find_None_filter)
next
  case (Some r)
  from unique_filter_one[OF assms Some] show ?thesis
    by (simp add: upsert_receipt_found[OF Some] filter_key_update)
qed

lemma upsert_receipt_existing:
  assumes "receipts_unique rs"
    and "filter (same_key mid uid) rs = [r]"
  shows "snd (upsert_receipt mid uid tu tc rs)
           = \<lparr>rr_messageId = mid, rr_userId = uid, rr_readAt = tu\<rparr>"
proof -
  from assms(2) have "r \<in> set (filter (same_key mid uid) rs)" by simp
  then have k: "same_key mid uid r" and "r \<in> set rs" by auto
  then obtain r' where f: "find (same_key mid uid) rs = Some r'"
    by (cases "find (same_key mid uid) rs") (auto simp: find_None_iff)
  from unique_filter_one[OF assms(1) f] assms(2) have "r' = r" by simp
  with f k show ?thesis
    by (simp add: upsert_receipt_found(2) keyed_row)
qed

lemma upsert_receipt_unique:
  assumes "receipts_unique rs"
  shows "receipts_unique (fst (upsert_receipt mid uid tu tc rs))"
proof (cases "find (same_key mid uid) rs")
  case None
  then have "\<not> (\<exists>x. x \<in> set rs \<and> same_key mid uid x)" by (simp add: find_None_iff)
  then have "(mid, uid) \<notin> set (map receipt_key rs)" by (auto simp: same_key_iff)
  with None assms show ?thesis
    by (simp add: upsert_receipt_fresh receipts_unique_def receipt_key_def)
next
  case (Some r)
  have "map receipt_key (fst (upsert_receipt mid uid tu tc rs)) = map receipt_key rs"
    unfolding upsert_receipt_found(1)[OF Some] by (rule keys_update)
  with assms show ?thesis
    by (simp add: receipts_unique_def)
qed


lemma mark_read_valid:
  assumes "find (\<lambda>m. m_id m = mid) (messages d) = Some msg"
    and "find (\<lambda>c. c_id c = m_conversationId msg) (conversations d) = Some conv"
    and "participantOne conv = userId sock \<or> participantTwo conv = userId sock"
    and "senderId msg \<noteq> userId sock"
    and "\<not> fails MessageFindFirst" and "\<not> fails MessageUpdate" and "\<not> fails ReceiptUpsert"
  shows "mark_read fails tm tu tc sock mid d
           = (d\<lparr>messages := map (\<lambda>m. if m_id m = mid then mark_message_read tm m else m) (messages d),
                receipts := fst (upsert_receipt mid (userId sock) tu tc (receipts d))\<rparr>,
              [read_event ''message_read'' (c_id conv) mid (userId sock)
                 (rr_readAt (snd (upsert_receipt mid (userId sock) tu tc (receipts d)))),
               read_event ''read_receipt_updated'' (c_id conv) mid (userId sock)
                 (rr_readAt (snd (upsert_receipt mid (userId sock) tu tc (receipts d))))])"
  using assms by (simp add: mark_read_def Let_def case_prod_beta)

lemma find_marked:
  "find (\<lambda>m. m_id m = mid) (map (\<lambda>m. if m_id m = mid then mark_message_read t m else m) ms)
     = map_option (mark_message_read t) (find (\<lambda>m. m_id m = mid) ms)"
  by (induction ms) (auto simp: mark_message_read_def)

lemma mark_read_keeps_unique:
  assumes "receipts_unique (receipts d)"
  shows "receipts_unique (receipts (fst (mark_read fails tm tu tc sock mid d)))"
  using assms upsert_receipt_unique[OF assms, of mid "userId sock" tu tc]
  by (auto simp: mark_read_def Let_def case_prod_beta split: option.splits)

lemma createMany_keeps_unique:
  "receipts_unique rs \<Longrightarrow> receipts_unique (createMany_skipDuplicates xs rs)"
proof (induction xs arbitrary: rs)
  case Nil
  then show ?case by simp
next
  case (Cons x xs)
  have "receipts_unique
          (if list_ex (same_key (rr_messageId x) (rr_userId x)) rs then rs else rs @ [x])"
    using Cons.prems
    by (auto simp: receipts_unique_def list_ex_iff same_key_iff receipt_key_def)
  then show ?case by (simp add: Cons.IH)
qed

lemma mark_conversation_read_keeps_unique:
  assumes "receipts_unique (receipts d)"
  shows "receipts_unique (receipts (fst (mark_conversation_read fails tm tr te sock cid d)))"
  using assms
  by (auto simp: mark_conversation_read_def Let_def createMany_keeps_unique split: option.splits)

text \<open>
  C7.  \<^verbatim>\<open>mark_read\<close> is idempotent per (message, reader) pair.  When the reader is a
  participant of the message's conversation and not its sender, the store answers, and the
  receipt table satisfies its key, a second call after a first one emits no error (it
  emits the two read events, carrying the second call's timestamp), the table then holds
  exactly one receipt for the pair, whose read-at is the timestamp of the second call, and
  the table still satisfies its key.  Uniqueness of the key is kept by every run of
  \<^verbatim>\<open>mark_read\<close> and of \<^verbatim>\<open>mark_conversation_read\<close> (lemmas \<open>mark_read_keeps_unique\<close>,
  \<open>mark_conversation_read_keeps_unique\<close>), so at most one receipt ever exists per pair.
\<close>

theorem mark_read_idempotent:
  assumes "find (\<lambda>m. m_id m = mid) (messages d) = Some msg"
    and "find (\<lambda>c. c_id c = m_conversationId msg) (conversations d) = Some conv"
    and "participantOne conv = userId sock \<or> participantTwo conv = userId sock"
    and "senderId msg \<noteq> userId sock"
    and "\<not> fails MessageFindFirst" and "\<not> fails MessageUpdate" and "\<not> fails ReceiptUpsert"
    and "receipts_unique (receipts d)"
  shows "snd (mark_read fails tm2 tu2 tc2 sock mid (fst (mark_read fails tm1 tu1 tc1 sock mid d)))
           = [read_event ''message_read'' (c_id conv) mid (userId sock) tu2,
              read_event ''read_receipt_updated'' (c_id conv) mid (userId sock) tu2]
       \<and> receipts_for mid (userId sock)
            (fst (mark_read fails tm2 tu2 tc2 sock mid (fst (mark_read fails tm1 tu1 tc1 sock mid d))))
           = [\<lparr>rr_messageId = mid, rr_userId = userId sock, rr_readAt = tu2\<rparr>]
       \<and> receipts_unique (receipts
            (fst (mark_read fails tm2 tu2 tc2 sock mid (fst (mark_read fails tm1 tu1 tc1 sock mid d)))))"
proof -
  let ?uid = "userId sock"
  let ?rs1 = "fst (upsert_receipt mid ?uid tu1 tc1 (receipts d))"
  let ?d1 = "d\<lparr>messages := map (\<lambda>m. if m_id m = mid then mark_message_read tm1 m else m) (messages d),
               receipts := ?rs1\<rparr>"
  have first: "fst (mark_read fails tm1 tu1 tc1 sock mid d) = ?d1"
    by (simp add: mark_read_valid[OF assms(1-7)])
  have u1: "receipts_unique ?rs1"
    by (rule upsert_receipt_unique[OF assms(8)])
  have one: "filter (same_key mid ?uid) ?rs1 = [snd (upsert_receipt mid ?uid tu1 tc1 (receipts d))]"
    by (rule upsert_receipt_rows[OF assms(8)])
  have m1: "find (\<lambda>m. m_id m = mid) (messages ?d1) = Some (mark_message_read tm1 msg)"
    using assms(1) by (simp add: find_marked)
  have c1: "find (\<lambda>c. c_id c = m_conversationId (mark_message_read tm1 msg)) (conversations ?d1)
              = Some conv"
    using assms(2) by (simp add: mark_message_read_def)
  have s1: "senderId (mark_message_read tm1 msg) \<noteq> userId sock"
    using assms(4) by (simp add: mark_message_read_def)
  note second = mark_read_valid[OF m1 c1 assms(3) s1 assms(5-7), of tm2 tu2 tc2]
  have r2: "snd (upsert_receipt mid ?uid tu2 tc2 ?rs1)
              = \<lparr>rr_messageId = mid, rr_userId = ?uid, rr_readAt = tu2\<rparr>"
    by (rule upsert_receipt_existing[OF u1 one])
  have rows2: "filter (same_key mid ?uid) (fst (upsert_receipt mid ?uid tu2 tc2 ?rs1))
                 = [\<lparr>rr_messageId = mid, rr_userId = ?uid, rr_readAt = tu2\<rparr>]"
    using upsert_receipt_rows[OF u1, of mid ?uid tu2 tc2] r2 by simp
  have u2: "receipts_unique (fst (upsert_receipt mid ?uid tu2 tc2 ?rs1))"
    by (rule upsert_receipt_unique[OF u1])
  show ?thesis
    unfolding first second using r2 rows2 u2
    by (simp add: receipts_for_def)
qed


theorem mark_read_idempotent_witness:
  "snd (mark_read no_faults 20 21 22 bob ''m2'' (fst (mark_read no_faults 10 11 12 bob ''m2'' store0)))
     = [read_event ''message_read'' ''c1'' ''m2'' ''bob'' 21,
        read_event ''read_receipt_updated'' ''c1'' ''m2'' ''bob'' 21]
   \<and> receipts_for ''m2'' ''bob''
        (fst (mark_read no_faults 20 21 22 bob ''m2'' (fst (mark_read no_faults 10 11 12 bob ''m2'' store0))))
     = [\<lparr>rr_messageId = ''m2'', rr_userId = ''bob'', rr_readAt = 21\<rparr>]"
proof -
  have m: "find (\<lambda>m. m_id m = ''m2'') (messages store0) = Some (messages store0 ! 1)"
    by (simp add: store0_def)
  have c: "find (\<lambda>c. c_id c = m_conversationId (messages store0 ! 1)) (conversations store0)
             = Some (conversations store0 ! 0)"
    by (simp add: store0_def)
  have p: "participantOne (conversations store0 ! 0) = userId bob
           \<or> participantTwo (conversations store0 ! 0) = userId bob"
    by (simp add: store0_def bob_def)
  have s: "senderId (messages store0 ! 1) \<noteq> userId bob"
    by (simp add: store0_def bob_def)
  have u: "receipts_unique (receipts store0)"
    by (simp add: store0_def receipts_unique_def)
  have f: "\<not> no_faults MessageFindFirst" "\<not> no_faults MessageUpdate" "\<not> no_faults ReceiptUpsert"
    by (simp_all add: no_faults_def)
  have i: "c_id (conversations store0 ! 0) = ''c1''" "userId bob = ''bob''"
    by (simp_all add: store0_def bob_def)
  show ?thesis
    using mark_read_idempotent
            [where mid = "''m2''" and d = store0 and msg = "messages store0 ! 1"
               and conv = "conversations store0 ! 0" and sock = bob and fails = no_faults
               and ?tm2.0 = 20 and ?tu2.0 = 21 and ?tc2.0 = 22
               and ?tm1.0 = 10 and ?tu1.0 = 11 and ?tc1.0 = 12,
             OF m c p s f u]
    by (simp add: i)
qed

text \<open>
  C8, as amended.  A \<^verbatim>\<open>mark_read\<close> call by the sender of the message is silently ignored:
  the handler returns without emitting any event, and the store is unchanged, so no
  receipt is created or updated, the message's read state is unchanged and no read event
  is broadcast.
\<close>

theorem mark_read_by_sender_ignored:
  assumes "find (\<lambda>m. m_id m = mid) (messages d) = Some msg"
    and "find (\<lambda>c. c_id c = m_conversationId msg) (conversations d) = Some conv"
    and "senderId msg = userId sock"
    and "\<not> fails MessageFindFirst"
  shows "mark_read fails tm tu tc sock mid d = (d, [])"
  using assms by (simp add: mark_read_def Let_def)

theorem mark_read_by_sender_ignored_witness:
  "mark_read no_faults 10 11 12 alice ''m2'' store0 = (store0, [])"
proof -
  have m: "find (\<lambda>m. m_id m = ''m2'') (messages store0) = Some (messages store0 ! 1)"
    by (simp add: store0_def)
  have c: "find (\<lambda>c. c_id c = m_conversationId (messages store0 ! 1)) (conversations store0)
             = Some (conversations store0 ! 0)"
    by (simp add: store0_def)
  have s: "senderId (messages store0 ! 1) = userId alice"
    by (simp add: store0_def alice_def)
  have f: "\<not> no_faults MessageFindFirst"
    by (simp add: no_faults_def)
  show ?thesis
    by (rule mark_read_by_sender_ignored
              [where mid = "''m2''" and d = store0 and msg = "messages store0 ! 1"
                 and conv = "conversations store0 ! 0" and sock = alice and fails = no_faults,
               OF m c s f])
qed

text \<open>
  C8, as stated, says that the call fails with SelfRead.  The handler reports no failure:
  Alice's call on her own message \<open>m2\<close> emits no \<^verbatim>\<open>error\<close> event, unlike her call on a
  message that does not exist.
\<close>

theorem mark_read_by_sender_no_failure_reported:
  "events_named ''error'' (snd (mark_read no_faults 10 11 12 alice ''m2'' store0)) = []
   \<and> events_named ''error'' (snd (mark_read no_faults 10 11 12 alice ''m0'' store0))
       = [emit_error alice ''Message not found'']"
  by (simp add: mark_read_def store0_def alice_def no_faults_def events_named_def named_def
                emit_error_def)

text \<open>
  C10.  A \<^verbatim>\<open>mark_conversation_read\<close> call by a participant, when the conversation holds
  no unread message sent by someone else, changes nothing in the store and emits no event
  to the room; when the store answers its two queries it emits no event at all, not even
  an \<^verbatim>\<open>error\<close> event.
\<close>

theorem mark_conversation_read_noop:
  assumes "findConversation cid (userId sock) d = Some conv"
    and "filter (unread_from_others cid (userId sock)) (messages d) = []"
  shows "fst (mark_conversation_read fails tm tr te sock cid d) = d
       \<and> events_named ''message_read'' (snd (mark_conversation_read fails tm tr te sock cid d)) = []
       \<and> list_all (\<lambda>e. ev_target e = ToSocket (s_id sock))
            (snd (mark_conversation_read fails tm tr te sock cid d))
       \<and> (\<not> fails ConversationFindFirst \<and> \<not> fails MessageFindMany \<longrightarrow>
            mark_conversation_read fails tm tr te sock cid d = (d, []))"
  using assms
  by (auto simp: mark_conversation_read_def Let_def events_named_def named_def emit_error_def)

theorem mark_conversation_read_noop_witness:
  "mark_conversation_read no_faults 10 (\<lambda>m. 11) 12 alice ''c2'' store0 = (store0, [])"
proof -
  have c: "findConversation ''c2'' (userId alice) store0 = Some (conversations store0 ! 1)"
    by (simp add: findConversation_def store0_def alice_def)
  have n: "filter (unread_from_others ''c2'' (userId alice)) (messages store0) = []"
    by (simp add: unread_from_others_def store0_def)
  show ?thesis
    using mark_conversation_read_noop
            [where cid = "''c2''" and sock = alice and d = store0
               and conv = "conversations store0 ! 1" and fails = no_faults
               and tm = 10 and tr = "\<lambda>m. 11" and te = 12,
             OF c n]
    by (simp add: no_faults_def)
qed

section \<open>Typing activity\<close>









section \<open>Disconnecting\<close>

lemma update_user_Some:
  "list_ex (\<lambda>u. u_id u = uid) (users d) \<Longrightarrow>
   update_user uid online t d
     = Some (d\<lparr>users := map (\<lambda>u. if u_id u = uid then u\<lparr>isOnline := online, lastSeen := Some t\<rparr>
                                else u) (users d)\<rparr>)"
  by (simp add: update_user_def)

lemma handleUserOffline_run:
  assumes "userId sock \<noteq> []"
    and "list_ex (\<lambda>u. u_id u = userId sock) (users d)"
    and "\<not> fails UserUpdate" and "\<not> fails ActivityDeleteMany" and "\<not> fails FriendshipFindMany"
  shows "handleUserOffline fails t_seen t_emit sock d
           = (d\<lparr>users := map (\<lambda>u. if u_id u = userId sock
                                   then u\<lparr>isOnline := False, lastSeen := Some t_seen\<rparr> else u)
                            (users d),
                activities := filter (\<lambda>a. \<not> (ua_userId a = userId sock
                                              \<and> ua_activityType a = ''TYPING''))
                                (activities d)\<rparr>,
              map (friend_offline_event sock t_emit) (friendIds (userId sock) d)
              @ map (\<lambda>room. typing_event ''user_stopped_typing'' sock room (drop 13 room))
                  (filter (\<lambda>room. room \<noteq> s_id sock \<and> startsWith room ''conversation:'')
                     (rooms sock)))"
  using assms
  by (simp add: handleUserOffline_def update_user_Some Let_def friendIds_def)

lemma alice_joined_eq:
  "alice_joined = \<lparr>s_id = ''s1'', userId = ''alice'', rooms = [''s1'', ''c1'', ''c2'']\<rparr>"
  by (simp add: alice_joined_def join_conversation_def findConversation_def alice_def
                store0_def no_faults_def)

lemma store_typing_eq:
  "store_typing
     = store0\<lparr>activities := [\<lparr>ua_userId = ''alice'', ua_conversationId = ''c1'',
                                ua_activityType = ''TYPING'', ua_lastActivity = 100\<rparr>]\<rparr>"
  by (simp add: store_typing_def typing_start_def findConversation_def alice_joined_eq
                store0_def no_faults_def upsert_activity_def)

text \<open>
  C2, as amended.  When an authenticated connection disconnects and the store answers
  (the row of the user exists, and the update of the user, the deletion of the typing rows
  and the query for the friendships do not throw), \<^verbatim>\<open>handleUserOffline\<close> marks the user
  offline and sets the user's last-seen to the time of the disconnect, leaving the rows of
  all other users as they are; it deletes all typing rows of the user; and it emits
  \<^verbatim>\<open>friend_offline\<close> to the personal room of every accepted friend, in order.  It emits no
  leave event (\<^verbatim>\<open>user_left_conversation\<close>) to any room; every event it emits is a
  \<^verbatim>\<open>friend_offline\<close> or a \<^verbatim>\<open>user_stopped_typing\<close> event.
\<close>

theorem disconnect_cascade:
  assumes "userId sock \<noteq> []"
    and "list_ex (\<lambda>u. u_id u = userId sock) (users d)"
    and "\<not> fails UserUpdate" and "\<not> fails ActivityDeleteMany" and "\<not> fails FriendshipFindMany"
  shows "users (fst (handleUserOffline fails t_seen t_emit sock d))
           = map (\<lambda>u. if u_id u = userId sock
                      then u\<lparr>isOnline := False, lastSeen := Some t_seen\<rparr> else u) (users d)
       \<and> events_named ''friend_offline'' (snd (handleUserOffline fails t_seen t_emit sock d))
           = map (friend_offline_event sock t_emit) (friendIds (userId sock) d)
       \<and> events_named ''user_left_conversation''
            (snd (handleUserOffline fails t_seen t_emit sock d)) = []
       \<and> list_all (\<lambda>e. ev_name e = ''friend_offline'' \<or> ev_name e = ''user_stopped_typing'')
            (snd (handleUserOffline fails t_seen t_emit sock d))
       \<and> filter (\<lambda>a. ua_userId a = userId sock \<and> ua_activityType a = ''TYPING'')
            (activities (fst (handleUserOffline fails t_seen t_emit sock d))) = []
       \<and> filter (\<lambda>u. u_id u = userId sock \<and> isOnline u)
            (users (fst (handleUserOffline fails t_seen t_emit sock d))) = []"
proof -
  have n1: "filter (named ''friend_offline'') (map (friend_offline_event sock t_emit) xs)
              = map (friend_offline_event sock t_emit) xs" for xs
    by (induction xs) (simp_all add: named_def friend_offline_event_def)
  have n2: "filter (named ''friend_offline'')
              (map (\<lambda>room. typing_event ''user_stopped_typing'' sock room (drop 13 room)) xs) = []" for xs
    by (induction xs) (simp_all add: named_def typing_event_def)
  have n3: "filter (named ''user_left_conversation'') (map (friend_offline_event sock t_emit) xs) = []" for xs
    by (induction xs) (simp_all add: named_def friend_offline_event_def)
  have n4: "filter (named ''user_left_conversation'')
              (map (\<lambda>room. typing_event ''user_stopped_typing'' sock room (drop 13 room)) xs) = []" for xs
    by (induction xs) (simp_all add: named_def typing_event_def)
  have u: "filter (\<lambda>u. u_id u = uid \<and> isOnline u)
             (map (\<lambda>u. if u_id u = uid then u\<lparr>isOnline := False, lastSeen := Some t\<rparr> else u) us) = []"
    for uid t and us :: "user list"
    by (induction us) simp_all
  have l1: "list_all (\<lambda>e. ev_name e = ''friend_offline'' \<or> ev_name e = ''user_stopped_typing'')
              (map (friend_offline_event sock t_emit) xs)" for xs
    by (induction xs) (simp_all add: friend_offline_event_def)
  have l2: "list_all (\<lambda>e. ev_name e = ''friend_offline'' \<or> ev_name e = ''user_stopped_typing'')
              (map (\<lambda>room. typing_event ''user_stopped_typing'' sock room (drop 13 room)) xs)" for xs
    by (induction xs) (simp_all add: typing_event_def)
  show ?thesis
    unfolding handleUserOffline_run[OF assms]
    by (simp add: events_named_def n1 n2 n3 n4 u l1 l2)
qed

theorem disconnect_cascade_witness:
  "users (fst (handleUserOffline no_faults 200 201 alice_joined store_typing))
     = [\<lparr>u_id = ''alice'', email = ''a@x.io'', username = ''alice'', isOnline = False,
         lastSeen = Some 200\<rparr>,
        \<lparr>u_id = ''bob'', email = ''b@x.io'', username = ''bob'', isOnline = False,
         lastSeen = None\<rparr>]
   \<and> events_named ''friend_offline'' (snd (handleUserOffline no_faults 200 201 alice_joined store_typing))
     = [friend_offline_event alice_joined 201 ''bob'']
   \<and> events_named ''user_left_conversation''
        (snd (handleUserOffline no_faults 200 201 alice_joined store_typing)) = []
   \<and> typing_rows ''alice'' ''c1''
        (fst (handleUserOffline no_faults 200 201 alice_joined store_typing)) = []"
proof -
  have a: "userId alice_joined \<noteq> []" by (simp add: alice_joined_eq)
  have b: "list_ex (\<lambda>u. u_id u = userId alice_joined) (users store_typing)"
    by (simp add: alice_joined_eq store_typing_eq store0_def)
  have f: "\<not> no_faults UserUpdate" "\<not> no_faults ActivityDeleteMany"
          "\<not> no_faults FriendshipFindMany"
    by (simp_all add: no_faults_def)
  have fr: "friendIds ''alice'' store_typing = [''bob'']"
    by (simp add: friendIds_def accepted_with_def store_typing_eq store0_def)
  have k: "typing_rows ''alice'' ''c1'' dd
             = filter (typing_key ''alice'' ''c1'')
                 (filter (\<lambda>a. ua_userId a = ''alice'' \<and> ua_activityType a = ''TYPING'')
                    (activities dd))" for dd
    by (auto simp: typing_rows_def typing_key_def intro: filter_cong)
  have u: "userId alice_joined = ''alice''" by (simp add: alice_joined_eq)
  have us: "map (\<lambda>u. if u_id u = ''alice'' then u\<lparr>isOnline := False, lastSeen := Some 200\<rparr> else u)
              (users store_typing)
            = [\<lparr>u_id = ''alice'', email = ''a@x.io'', username = ''alice'', isOnline = False,
                lastSeen = Some 200\<rparr>,
               \<lparr>u_id = ''bob'', email = ''b@x.io'', username = ''bob'', isOnline = False,
                lastSeen = None\<rparr>]"
    by (simp add: store_typing_eq store0_def)
  show ?thesis
    using disconnect_cascade
            [where sock = alice_joined and d = store_typing and fails = no_faults
               and t_seen = 200 and t_emit = 201, OF a b f]
    by (simp add: fr k u us)
qed

text \<open>
  C2, as stated, fails.  Alice's socket has joined the rooms \<open>c1\<close> and \<open>c2\<close> through
  \<^verbatim>\<open>join_conversation\<close> and she is typing in \<open>c1\<close> only.  \<^verbatim>\<open>handleUserOffline\<close> for that
  socket emits the one \<^verbatim>\<open>friend_offline\<close> event for Bob and nothing else: no leave
  broadcast to \<open>c1\<close> or \<open>c2\<close>, and no stop-typing broadcast in \<open>c1\<close>.  The same one
  event is all that the disconnect of that socket from the server emits.
\<close>

theorem disconnect_emits_no_leave_no_stop_typing:
  "rooms alice_joined = [''s1'', ''c1'', ''c2'']
   \<and> typing_rows ''alice'' ''c1'' store_typing \<noteq> []
   \<and> typing_rows ''alice'' ''c2'' store_typing = []
   \<and> snd (handleUserOffline no_faults 200 201 alice_joined store_typing)
       = [friend_offline_event alice_joined 201 ''bob'']
   \<and> events_named ''user_left_conversation''
        (snd (handleUserOffline no_faults 200 201 alice_joined store_typing)) = []
   \<and> events_named ''user_stopped_typing''
        (snd (handleUserOffline no_faults 200 201 alice_joined store_typing)) = []
   \<and> snd (socket_disconnect no_faults 200 201 ''s1'' typing_server)
       = [friend_offline_event alice_joined 201 ''bob'']"
proof -
  have a: "userId alice_joined \<noteq> []" by (simp add: alice_joined_eq)
  have b: "list_ex (\<lambda>u. u_id u = userId alice_joined) (users store_typing)"
    by (simp add: alice_joined_eq store_typing_eq store0_def)
  have f: "\<not> no_faults UserUpdate" "\<not> no_faults ActivityDeleteMany"
          "\<not> no_faults FriendshipFindMany"
    by (simp_all add: no_faults_def)
  have fr: "friendIds (userId alice_joined) store_typing = [''bob'']"
    by (simp add: friendIds_def accepted_with_def alice_joined_eq store_typing_eq store0_def)
  have rs: "filter (\<lambda>room. room \<noteq> s_id alice_joined \<and> startsWith room ''conversation:'')
              (rooms alice_joined) = []"
    by (simp add: alice_joined_eq startsWith_def)
  have ev: "snd (handleUserOffline no_faults 200 201 alice_joined store_typing)
              = [friend_offline_event alice_joined 201 ''bob'']"
    by (simp add: handleUserOffline_run[OF a b f] fr rs)
  have t1: "typing_rows ''alice'' ''c1'' store_typing \<noteq> []"
    by (simp add: typing_rows_def typing_key_def store_typing_eq)
  have t2: "typing_rows ''alice'' ''c2'' store_typing = []"
    by (simp add: typing_rows_def typing_key_def store_typing_eq)
  have r: "rooms alice_joined = [''s1'', ''c1'', ''c2'']" by (simp add: alice_joined_eq)
  have a0: "userId (alice_joined\<lparr>rooms := []\<rparr>) \<noteq> []" by (simp add: alice_joined_eq)
  have b0: "list_ex (\<lambda>u. u_id u = userId (alice_joined\<lparr>rooms := []\<rparr>)) (users store_typing)"
    by (simp add: alice_joined_eq store_typing_eq store0_def)
  have ev0: "snd (handleUserOffline no_faults 200 201 (alice_joined\<lparr>rooms := []\<rparr>) store_typing)
               = [friend_offline_event alice_joined 201 ''bob'']"
    by (simp add: handleUserOffline_run[OF a0 b0 f] fr friend_offline_event_def)
  have f0: "find (\<lambda>s. s_id s = ''s1'') (srv_sockets typing_server) = Some alice_joined"
    by (simp add: typing_server_def alice_joined_eq)
  have real: "snd (socket_disconnect no_faults 200 201 ''s1'' typing_server)
                = snd (handleUserOffline no_faults 200 201 (alice_joined\<lparr>rooms := []\<rparr>)
                         (srv_db typing_server))"
    by (simp add: socket_disconnect_def f0 case_prod_beta Let_def)
  have sd: "srv_db typing_server = store_typing" by (simp add: typing_server_def)
  show ?thesis
    unfolding real sd ev0
    by (simp add: ev t1 t2 r events_named_def named_def friend_offline_event_def)
qed

section \<open>Presence\<close>

lemma authenticateSocket_Inr:
  assumes "authenticateSocket fails now t sid tok d = Inr (sock, d1)"
  shows "\<exists>uid. sock = \<lparr>s_id = sid, userId = uid, rooms = [sid]\<rparr>
           \<and> d1 = d\<lparr>users := map (\<lambda>u. if u_id u = uid
                                        then u\<lparr>isOnline := True, lastSeen := Some t\<rparr> else u)
                                 (users d)\<rparr>"
  using assms
  by (auto simp: authenticateSocket_def update_user_def
           split: option.splits sum.splits if_splits)

lemma users_after_offline:
  assumes "userId sock \<noteq> []"
    and "list_ex (\<lambda>u. u_id u = userId sock) (users d)"
    and "\<not> fails UserUpdate"
  shows "users (fst (handleUserOffline fails t_seen t_emit sock d))
           = map (\<lambda>u. if u_id u = userId sock
                      then u\<lparr>isOnline := False, lastSeen := Some t_seen\<rparr> else u) (users d)"
  using assms
  by (simp add: handleUserOffline_def update_user_Some Let_def)



lemma connect_keeps_presence:
  assumes "presence_invariant srv"
  shows "presence_invariant (fst (socket_connect fails now t sid tok srv))"
proof (cases "authenticateSocket fails now t sid tok (srv_db srv)")
  case (Inl e)
  with assms show ?thesis by (simp add: socket_connect_def)
next
  case (Inr p)
  obtain sock d1 where p: "p = (sock, d1)" by (cases p)
  let ?on = "\<lambda>u. if u_id u = userId sock then u\<lparr>isOnline := True, lastSeen := Some t\<rparr> else u"
  from authenticateSocket_Inr[OF Inr[unfolded p]]
  have us: "users d1 = map ?on (users (srv_db srv))"
    by auto
  let ?srv' = "srv\<lparr>srv_db := d1, srv_sockets := srv_sockets srv @ [sock]\<rparr>"
  have r: "fst (socket_connect fails now t sid tok srv) = ?srv'"
    by (simp add: socket_connect_def Inr p)
  have own: "connection_ids (userId sock) ?srv' \<noteq> []"
    by (simp add: connection_ids_def)
  have other: "connection_ids v ?srv' = connection_ids v srv" if "v \<noteq> userId sock" for v
    using that by (auto simp: connection_ids_def)
  have "presence_ok ?srv' (?on u)" if "u \<in> set (users (srv_db srv))" for u
  proof (cases "u_id u = userId sock")
    case True
    with own show ?thesis by (simp add: presence_ok_def)
  next
    case False
    from assms that have "presence_ok srv u"
      by (simp add: presence_invariant_def list_all_iff)
    with False other[OF False] show ?thesis by (simp add: presence_ok_def)
  qed
  then have "list_all (presence_ok ?srv') (map ?on (users (srv_db srv)))"
    unfolding list_all_iff set_map by blast
  then show ?thesis
    unfolding r presence_invariant_def by (simp add: us)
qed


lemma find_distinct_unique:
  assumes "distinct (map f xs)" and "find (\<lambda>x. f x = k) xs = Some y"
  shows "filter (\<lambda>x. f x \<noteq> k) xs = filter (\<lambda>x. x \<noteq> y) xs"
  using assms
proof (induction xs)
  case Nil
  then show ?case by simp
next
  case (Cons a xs)
  show ?case
  proof (cases "f a = k")
    case True
    with Cons.prems have ay: "a = y" by simp
    from Cons.prems True have n: "\<forall>x\<in>set xs. f x \<noteq> k" by (force simp: image_iff)
    then have "filter (\<lambda>x. f x \<noteq> k) xs = xs"
      by (simp add: filter_id_conv)
    moreover from n True ay have "filter (\<lambda>x. x \<noteq> y) xs = xs"
      by (auto simp: filter_id_conv)
    ultimately show ?thesis using True ay by simp
  next
    case False
    with Cons.prems have "a \<noteq> y"
      by (auto dest: find_Some_iff[THEN iffD1])
    with False Cons show ?thesis by simp
  qed
qed

lemma disconnect_state:
  assumes "find (\<lambda>s. s_id s = sid) (srv_sockets srv) = Some sock"
  shows "srv_sockets (fst (socket_disconnect fails t_seen t_emit sid srv))
           = filter (\<lambda>s. s_id s \<noteq> sid) (srv_sockets srv)"
    and "srv_db (fst (socket_disconnect fails t_seen t_emit sid srv))
           = fst (handleUserOffline fails t_seen t_emit (sock\<lparr>rooms := []\<rparr>) (srv_db srv))"
  using assms by (simp_all add: socket_disconnect_def case_prod_beta Let_def)


lemma disconnect_presence:
  assumes inv: "presence_invariant srv"
    and ids: "distinct (map s_id (srv_sockets srv))"
    and found: "find (\<lambda>s. s_id s = sid) (srv_sockets srv) = Some sock"
    and uid: "userId sock \<noteq> []"
    and row: "list_ex (\<lambda>u. u_id u = userId sock) (users (srv_db srv))"
    and upd: "\<not> fails UserUpdate"
  shows "filter (\<lambda>u. u_id u = userId sock \<and> isOnline u)
           (users (srv_db (fst (socket_disconnect fails t_seen t_emit sid srv)))) = []
       \<and> presence_invariant (fst (socket_disconnect fails t_seen t_emit sid srv))
           = (connection_ids (userId sock) (fst (socket_disconnect fails t_seen t_emit sid srv)) = [])"
proof -
  let ?srv' = "fst (socket_disconnect fails t_seen t_emit sid srv)"
  let ?off = "\<lambda>u. if u_id u = userId sock
                   then u\<lparr>isOnline := False, lastSeen := Some t_seen\<rparr> else u"
  have us: "users (srv_db ?srv') = map ?off (users (srv_db srv))"
    unfolding disconnect_state(2)[OF found]
    using uid row upd by (simp add: users_after_offline)
  have ss: "srv_sockets ?srv' = filter (\<lambda>s. s \<noteq> sock) (srv_sockets srv)"
    unfolding disconnect_state(1)[OF found]
    using ids found by (rule find_distinct_unique)
  have other: "connection_ids v ?srv' = connection_ids v srv" if "v \<noteq> userId sock" for v
  proof -
    have "filter (\<lambda>s. userId s = v) (filter (\<lambda>s. s \<noteq> sock) (srv_sockets srv))
            = filter (\<lambda>s. userId s = v) (srv_sockets srv)"
      using that by (auto intro: filter_cong)
    then show ?thesis by (simp only: connection_ids_def ss)
  qed
  have off: "filter (\<lambda>u. u_id u = userId sock \<and> isOnline u) (map ?off us) = []"
    for us :: "user list"
    by (induction us) simp_all
  have eq: "presence_invariant ?srv' = (connection_ids (userId sock) ?srv' = [])"
  proof
    assume p: "presence_invariant ?srv'"
    from row obtain u where u: "u \<in> set (users (srv_db srv))" "u_id u = userId sock"
      by (auto simp: list_ex_iff)
    from u(1) have "?off u \<in> set (map ?off (users (srv_db srv)))"
      unfolding set_map by (rule imageI)
    with p have "presence_ok ?srv' (?off u)"
      unfolding presence_invariant_def list_all_iff us by blast
    with u(2) show "connection_ids (userId sock) ?srv' = []"
      by (simp add: presence_ok_def)
  next
    assume e: "connection_ids (userId sock) ?srv' = []"
    have "presence_ok ?srv' (?off u)" if "u \<in> set (users (srv_db srv))" for u
    proof (cases "u_id u = userId sock")
      case True
      with e show ?thesis by (simp add: presence_ok_def)
    next
      case False
      from inv that have "presence_ok srv u"
        by (simp add: presence_invariant_def list_all_iff)
      with False other[OF False] show ?thesis by (simp add: presence_ok_def)
    qed
    then have "list_all (presence_ok ?srv') (map ?off (users (srv_db srv)))"
      unfolding list_all_iff set_map by blast
    then show "presence_invariant ?srv'"
      unfolding presence_invariant_def us .
  qed
  from off eq show ?thesis unfolding us by blast
qed

lemma one_connection_eq:
  "one_connection
     = \<lparr>srv_db = store0\<lparr>users :=
           [\<lparr>u_id = ''alice'', email = ''a@x.io'', username = ''alice'', isOnline = True,
             lastSeen = Some 1000\<rparr>,
            \<lparr>u_id = ''bob'', email = ''b@x.io'', username = ''bob'', isOnline = False,
             lastSeen = None\<rparr>]\<rparr>,
        srv_sockets = [\<lparr>s_id = ''s1'', userId = ''alice'', rooms = [''s1'']\<rparr>]\<rparr>"
  by (simp add: one_connection_def socket_connect_def authenticateSocket_def
                verifyAccessToken_def jwt_verify_def alice_access_def generateTokens_def
                jwt_sign_def JWT_ACCESS_SECRET_def alice_payload_def update_user_def
                store0_def server0_def no_faults_def)

lemma two_connections_eq:
  "two_connections
     = \<lparr>srv_db = store0\<lparr>users :=
           [\<lparr>u_id = ''alice'', email = ''a@x.io'', username = ''alice'', isOnline = True,
             lastSeen = Some 2000\<rparr>,
            \<lparr>u_id = ''bob'', email = ''b@x.io'', username = ''bob'', isOnline = False,
             lastSeen = None\<rparr>]\<rparr>,
        srv_sockets = [\<lparr>s_id = ''s1'', userId = ''alice'', rooms = [''s1'']\<rparr>,
                       \<lparr>s_id = ''s2'', userId = ''alice'', rooms = [''s2'']\<rparr>]\<rparr>"
  by (simp add: two_connections_def one_connection_eq socket_connect_def authenticateSocket_def
                verifyAccessToken_def jwt_verify_def alice_access_def generateTokens_def
                jwt_sign_def JWT_ACCESS_SECRET_def alice_payload_def update_user_def
                store0_def no_faults_def)

lemma presence_one_connection: "presence_invariant one_connection"
  by (simp add: one_connection_eq presence_invariant_def presence_ok_def connection_ids_def
                store0_def)

text \<open>
  C4, as amended.  Every connect keeps the PresenceEntry invariant (for every user, the
  online flag is true if and only if the user has a connected socket).  A disconnect of an
  authenticated socket always marks its user offline; hence, from a state that satisfies
  the invariant, the state after the disconnect satisfies it if and only if the user has
  no other connection left.
\<close>

theorem presence_after_connect_and_disconnect:
  assumes "presence_invariant srv"
  shows "presence_invariant (fst (socket_connect fails now t sid tok srv))
       \<and> (distinct (map s_id (srv_sockets srv))
            \<and> find (\<lambda>s. s_id s = sid') (srv_sockets srv) = Some sock
            \<and> userId sock \<noteq> []
            \<and> list_ex (\<lambda>u. u_id u = userId sock) (users (srv_db srv))
            \<and> \<not> fails' UserUpdate \<longrightarrow>
          filter (\<lambda>u. u_id u = userId sock \<and> isOnline u)
            (users (srv_db (fst (socket_disconnect fails' t_seen t_emit sid' srv)))) = []
          \<and> presence_invariant (fst (socket_disconnect fails' t_seen t_emit sid' srv))
              = (connection_ids (userId sock)
                   (fst (socket_disconnect fails' t_seen t_emit sid' srv)) = []))"
  using connect_keeps_presence[OF assms] disconnect_presence[OF assms]
  by blast

theorem presence_after_connect_and_disconnect_witness:
  "presence_invariant two_connections
   \<and> presence_invariant (fst (socket_disconnect no_faults 3000 3001 ''s1'' one_connection))
   \<and> connection_ids ''alice'' (fst (socket_disconnect no_faults 3000 3001 ''s1'' one_connection)) = []"
proof -
  have d: "distinct (map s_id (srv_sockets one_connection))"
    by (simp add: one_connection_eq)
  have f: "find (\<lambda>s. s_id s = ''s1'') (srv_sockets one_connection)
             = Some \<lparr>s_id = ''s1'', userId = ''alice'', rooms = [''s1'']\<rparr>"
    by (simp add: one_connection_eq)
  have r: "list_ex (\<lambda>u. u_id u = ''alice'') (users (srv_db one_connection))"
    by (simp add: one_connection_eq)
  have n: "\<not> no_faults UserUpdate" by (simp add: no_faults_def)
  have c: "connection_ids ''alice'' (fst (socket_disconnect no_faults 3000 3001 ''s1'' one_connection)) = []"
    unfolding connection_ids_def disconnect_state(1)[OF f]
    by (simp add: one_connection_eq)
  show ?thesis
    using presence_after_connect_and_disconnect
            [where srv = one_connection and fails = no_faults and now = 2000 and t = 2000
               and sid = "''s2''" and tok = "Some alice_access" and sid' = "''s1''"
               and sock = "\<lparr>s_id = ''s1'', userId = ''alice'', rooms = [''s1'']\<rparr>"
               and fails' = no_faults and t_seen = 3000 and t_emit = 3001,
             OF presence_one_connection]
          d f r n c
    by (simp add: two_connections_def)
qed

text \<open>
  C4, as stated, fails.  Alice holds the two connections \<open>s1\<close> and \<open>s2\<close>, and the
  invariant holds.  After \<open>s1\<close> disconnects she still holds \<open>s2\<close>, but she is marked
  offline: the invariant is broken.
\<close>

theorem second_connection_left_offline:
  "presence_invariant two_connections
   \<and> connection_ids ''alice'' (fst (socket_disconnect no_faults 3000 3001 ''s1'' two_connections))
       = [''s2'']
   \<and> filter (\<lambda>u. u_id u = ''alice'' \<and> isOnline u)
        (users (srv_db (fst (socket_disconnect no_faults 3000 3001 ''s1'' two_connections)))) = []
   \<and> \<not> presence_invariant (fst (socket_disconnect no_faults 3000 3001 ''s1'' two_connections))"
proof -
  let ?sock = "\<lparr>s_id = ''s1'', userId = ''alice'', rooms = [''s1'']\<rparr>"
  let ?srv' = "fst (socket_disconnect no_faults 3000 3001 ''s1'' two_connections)"
  have p: "presence_invariant two_connections"
    by (simp add: two_connections_eq presence_invariant_def presence_ok_def connection_ids_def
                  store0_def)
  have d: "distinct (map s_id (srv_sockets two_connections))"
    by (simp add: two_connections_eq)
  have f: "find (\<lambda>s. s_id s = ''s1'') (srv_sockets two_connections) = Some ?sock"
    by (simp add: two_connections_eq)
  have u: "userId ?sock \<noteq> []" by simp
  have r: "list_ex (\<lambda>u. u_id u = userId ?sock) (users (srv_db two_connections))"
    by (simp add: two_connections_eq)
  have n: "\<not> no_faults UserUpdate" by (simp add: no_faults_def)
  have c: "connection_ids ''alice'' ?srv' = [''s2'']"
    unfolding connection_ids_def disconnect_state(1)[OF f]
    by (simp add: two_connections_eq)
  note dp = disconnect_presence
              [where srv = two_connections and sid = "''s1''" and sock = ?sock
                 and fails = no_faults and t_seen = 3000 and t_emit = 3001,
               OF p d f u r n]
  from dp c have "\<not> presence_invariant ?srv'" by simp
  with p c dp show ?thesis by simp
qed

section \<open>Refresh-token rotation\<close>

lemma verifyRefreshToken_payload:
  "verifyRefreshToken t tok = Inr p \<Longrightarrow> \<exists>j. tok = Signed j \<and> p = jwt_payload j"
  by (auto simp: verifyRefreshToken_def jwt_verify_def split: token.splits if_splits sum.splits)

lemma find_Some_holds: "find P xs = Some x \<Longrightarrow> P x"
  by (induction xs) (auto split: if_splits)

lemma find_append_last:
  "P y \<Longrightarrow> \<exists>r. find P (xs @ [y]) = Some r \<and> P r"
  by (induction xs) auto

lemma refresh_run:
  assumes "verifyRefreshToken tv tok = Inr p"
    and "\<not> fails RefreshTokenFindFirst"
    and "find (\<lambda>r. rt_userId r = tp_userId p \<and> rt_expiresAt r > tq) (refreshTokens d) = Some stored"
    and "find (\<lambda>u. u_id u = rt_userId stored) (users d) = Some usr"
  shows "refresh fails tv tq ts te cc nid sec tok d
           = (if fails RefreshTokenDelete then (d, invalid_refresh)
              else if fails RefreshTokenCreate
              then (d\<lparr>refreshTokens :=
                      filter (\<lambda>r. rt_id r \<noteq> rt_id stored) (refreshTokens d)\<rparr>, invalid_refresh)
              else (d\<lparr>refreshTokens :=
                      filter (\<lambda>r. rt_id r \<noteq> rt_id stored) (refreshTokens d) @
                      [\<lparr>rt_id = nid, rt_token = sec, rt_userId = u_id usr,
                        rt_expiresAt = te + 7 * 24 * 60 * 60 * 1000 - cc\<rparr>]\<rparr>,
                    \<lparr>res_status = 200,
                     res_body = AuthBody usr
                       (fst (generateTokens ts
                          \<lparr>tp_userId = u_id usr, tp_email = email usr, tp_username = username usr\<rparr>))
                       (snd (generateTokens ts
                          \<lparr>tp_userId = u_id usr, tp_email = email usr, tp_username = username usr\<rparr>))\<rparr>))"
  using assms by (simp add: refresh_def Let_def case_prod_beta)

lemma refresh_ok_shape:
  assumes "res_status (snd (refresh fails tv tq ts te cc nid sec tok d)) = 200"
  shows "\<exists>p (stored :: refresh_token) usr.
           verifyRefreshToken tv tok = Inr p
         \<and> find (\<lambda>u. u_id u = tp_userId p) (users d) = Some usr
         \<and> fst (refresh fails tv tq ts te cc nid sec tok d)
             = d\<lparr>refreshTokens :=
                   filter (\<lambda>r. rt_id r \<noteq> rt_id stored) (refreshTokens d) @
                   [\<lparr>rt_id = nid, rt_token = sec, rt_userId = u_id usr,
                     rt_expiresAt = te + 7 * 24 * 60 * 60 * 1000 - cc\<rparr>]\<rparr>"
proof -
  have bad: "res_status invalid_refresh \<noteq> 200" by (simp add: invalid_refresh_def)
  obtain p where p: "verifyRefreshToken tv tok = Inr p"
  proof (cases "verifyRefreshToken tv tok")
    case (Inl e)
    then have "refresh fails tv tq ts te cc nid sec tok d = (d, invalid_refresh)"
      by (simp add: refresh_def)
    with assms bad show ?thesis by simp
  next
    case (Inr q)
    then show ?thesis by (rule that)
  qed
  let ?P = "\<lambda>r. rt_userId r = tp_userId p \<and> rt_expiresAt r > tq"
  have ff: "\<not> fails RefreshTokenFindFirst"
  proof
    assume "fails RefreshTokenFindFirst"
    with p have "refresh fails tv tq ts te cc nid sec tok d = (d, invalid_refresh)"
      by (simp add: refresh_def)
    with assms bad show False by simp
  qed
  obtain stored where st: "find ?P (refreshTokens d) = Some stored"
  proof (cases "find ?P (refreshTokens d)")
    case None
    with p ff have "refresh fails tv tq ts te cc nid sec tok d = (d, invalid_refresh)"
      by (simp add: refresh_def)
    with assms bad show ?thesis by simp
  next
    case (Some x)
    then show ?thesis by (rule that)
  qed
  from find_Some_holds[OF st] have su: "rt_userId stored = tp_userId p"
    by simp
  obtain usr where us: "find (\<lambda>u. u_id u = rt_userId stored) (users d) = Some usr"
  proof (cases "find (\<lambda>u. u_id u = rt_userId stored) (users d)")
    case None
    with p ff st have "refresh fails tv tq ts te cc nid sec tok d = (d, invalid_refresh)"
      by (simp add: refresh_def)
    with assms bad show ?thesis by simp
  next
    case (Some x)
    then show ?thesis by (rule that)
  qed
  note run = refresh_run
               [where fails = fails and tv = tv and tok = tok and p = p and tq = tq and d = d
                  and stored = stored and usr = usr and ts = ts and te = te and cc = cc
                  and nid = nid and sec = sec, OF p ff st us]
  have fd: "\<not> fails RefreshTokenDelete"
  proof
    assume "fails RefreshTokenDelete"
    with run have "snd (refresh fails tv tq ts te cc nid sec tok d) = invalid_refresh" by simp
    with assms bad show False by simp
  qed
  have fc: "\<not> fails RefreshTokenCreate"
  proof
    assume "fails RefreshTokenCreate"
    with run fd have "snd (refresh fails tv tq ts te cc nid sec tok d) = invalid_refresh" by simp
    with assms bad show False by simp
  qed
  from run fd fc have shape:
    "fst (refresh fails tv tq ts te cc nid sec tok d)
       = d\<lparr>refreshTokens :=
             filter (\<lambda>r. rt_id r \<noteq> rt_id stored) (refreshTokens d) @
             [\<lparr>rt_id = nid, rt_token = sec, rt_userId = u_id usr,
               rt_expiresAt = te + 7 * 24 * 60 * 60 * 1000 - cc\<rparr>]\<rparr>"
    by simp
  from us su have us': "find (\<lambda>u. u_id u = tp_userId p) (users d) = Some usr" by simp
  show ?thesis
    apply (rule exI[of _ p])
    apply (rule exI[of _ stored])
    apply (rule exI[of _ usr])
    apply (intro conjI)
      apply (rule p)
     apply (rule us')
    apply (rule shape)
    done
qed

lemma refresh_replay:
  assumes first: "res_status (snd (refresh f1 tv1 tq1 ts1 te1 cc1 id1 sec1 tok d)) = 200"
    and still: "verifyRefreshToken tv2 tok = Inr p2"
    and soon: "tq2 < te1 + 7 * 24 * 60 * 60 * 1000 - cc1"
    and nf: "\<not> f2 RefreshTokenFindFirst" "\<not> f2 RefreshTokenDelete" "\<not> f2 RefreshTokenCreate"
  shows "res_status (snd (refresh f2 tv2 tq2 ts2 te2 cc2 id2 sec2 tok
           (fst (refresh f1 tv1 tq1 ts1 te1 cc1 id1 sec1 tok d)))) = 200"
proof -
  from refresh_ok_shape[OF first] obtain p and stored :: refresh_token and usr where
    p: "verifyRefreshToken tv1 tok = Inr p" and
    us: "find (\<lambda>u. u_id u = tp_userId p) (users d) = Some usr" and
    d1: "fst (refresh f1 tv1 tq1 ts1 te1 cc1 id1 sec1 tok d)
           = d\<lparr>refreshTokens :=
                 filter (\<lambda>r. rt_id r \<noteq> rt_id stored) (refreshTokens d) @
                 [\<lparr>rt_id = id1, rt_token = sec1, rt_userId = u_id usr,
                   rt_expiresAt = te1 + 7 * 24 * 60 * 60 * 1000 - cc1\<rparr>]\<rparr>"
    by blast
  from verifyRefreshToken_payload[OF p] verifyRefreshToken_payload[OF still]
  have pp: "p2 = p" by auto
  from find_Some_holds[OF us] have uu: "u_id usr = tp_userId p" .
  let ?P = "\<lambda>r. rt_userId r = tp_userId p \<and> rt_expiresAt r > tq2"
  let ?new = "\<lparr>rt_id = id1, rt_token = sec1, rt_userId = u_id usr,
               rt_expiresAt = te1 + 7 * 24 * 60 * 60 * 1000 - cc1\<rparr>"
  have "?P ?new" using uu soon by simp
  from find_append_last[of ?P ?new "filter (\<lambda>r. rt_id r \<noteq> rt_id stored) (refreshTokens d)", OF this]
  obtain r where r: "find ?P (filter (\<lambda>r. rt_id r \<noteq> rt_id stored) (refreshTokens d) @ [?new]) = Some r"
    and ru: "rt_userId r = tp_userId p"
    by blast
  have us1: "find (\<lambda>u. u_id u = rt_userId r)
               (users (d\<lparr>refreshTokens :=
                   filter (\<lambda>r. rt_id r \<noteq> rt_id stored) (refreshTokens d) @ [?new]\<rparr>)) = Some usr"
    using us ru by simp
  have r1: "find (\<lambda>r. rt_userId r = tp_userId p2 \<and> rt_expiresAt r > tq2)
              (refreshTokens (d\<lparr>refreshTokens :=
                   filter (\<lambda>r. rt_id r \<noteq> rt_id stored) (refreshTokens d) @ [?new]\<rparr>)) = Some r"
    using r pp by simp
  let ?d1 = "d\<lparr>refreshTokens :=
              filter (\<lambda>r. rt_id r \<noteq> rt_id stored) (refreshTokens d) @ [?new]\<rparr>"
  note run2 = refresh_run
                [where fails = f2 and tv = tv2 and tok = tok and p = p2 and tq = tq2 and d = ?d1
                   and stored = r and usr = usr and ts = ts2 and te = te2 and cc = cc2
                   and nid = id2 and sec = sec2, OF still nf(1) r1 us1]
  show ?thesis
    unfolding d1 run2 using nf by simp
qed

text \<open>
  C1.  Refresh-token rotation is claimed to be single-use and atomic.  The handler of
  \<^verbatim>\<open>POST /refresh\<close> does not behave so.  Alice's store holds one unexpired refresh-token
  row.  A first call with her refresh token is answered 200 and replaces the row; a second
  call with the same token is answered 200 again, because the row is looked up by user id
  and expiry only and the row the first call created matches.  The deletion and the
  creation are two separate store calls: when the creation throws, the call is answered
  401 with the old row deleted and no row in its place.  Lemma \<open>refresh_replay\<close> shows
  the replay for every store and token: after a call answered 200, a second call with the
  same token, still valid and made before the new row expires, is answered 200.
\<close>

theorem refresh_accepts_replayed_token:
  "res_status (snd (refresh no_faults 1000 1000 1000 1000 0 ''r2'' ''77aa'' alice_refresh store0)) = 200
   \<and> map rt_id (refreshTokens
        (fst (refresh no_faults 1000 1000 1000 1000 0 ''r2'' ''77aa'' alice_refresh store0))) = [''r2'']
   \<and> res_status (snd (refresh no_faults 2000 2000 2000 2000 0 ''r3'' ''88bb'' alice_refresh
        (fst (refresh no_faults 1000 1000 1000 1000 0 ''r2'' ''77aa'' alice_refresh store0)))) = 200
   \<and> map rt_id (refreshTokens (fst (refresh no_faults 2000 2000 2000 2000 0 ''r3'' ''88bb'' alice_refresh
        (fst (refresh no_faults 1000 1000 1000 1000 0 ''r2'' ''77aa'' alice_refresh store0))))) = [''r3'']
   \<and> res_status (snd (refresh token_create_fails 1000 1000 1000 1000 0 ''r2'' ''77aa'' alice_refresh
        store0)) = 401
   \<and> refreshTokens (fst (refresh token_create_fails 1000 1000 1000 1000 0 ''r2'' ''77aa'' alice_refresh
        store0)) = []"
  by (simp add: refresh_def verifyRefreshToken_def jwt_verify_def alice_refresh_def
                generateTokens_def jwt_sign_def JWT_REFRESH_SECRET_def alice_payload_def
                store0_def no_faults_def token_create_fails_def invalid_refresh_def Let_def)

section \<open>Reconnecting after a rejected handshake\<close>

lemma client0_token_info: "getTokenInfo 1000 (client0\<lparr>trace := tr\<rparr>) = Info False"
  by (simp add: getTokenInfo_def client0_def alice_access_def generateTokens_def jwt_sign_def)

lemma invalid_token_is_authentication_error: "authentication_error ''Invalid access token''"
  by (simp add: authentication_error_def startsWith_def)

lemma rejecting_cycle:
  "connectSocket (Suc n) rejecting k (client0\<lparr>trace := tr\<rparr>)
     = connectSocket n rejecting (Suc k)
         (client0\<lparr>trace := tr @ [Handshake, RefreshCall, SocketDisconnect]\<rparr>)"
proof -
  have i: "getTokenInfo (env_now rejecting k) (client0\<lparr>trace := tr\<rparr>) = Info False"
    by (simp add: rejecting_def client0_token_info)
  show ?thesis
    using i invalid_token_is_authentication_error
    by (simp add: ensureValidToken_def refreshAccessToken_def Let_def rejecting_def client0_def)
qed

lemma rejecting_never_stops:
  "connectSocket n rejecting k (client0\<lparr>trace := tr\<rparr>)
     = client0\<lparr>trace := tr @ concat (replicate n [Handshake, RefreshCall, SocketDisconnect])\<rparr>"
proof (induction n arbitrary: k tr)
  case 0
  then show ?case by simp
next
  case (Suc n)
  show ?case
    unfolding rejecting_cycle Suc.IH by simp
qed

text \<open>
  A refresh request answered 401, after a rejected handshake: the call never settles, so
  the client neither retries nor logs out, and it keeps its tokens.
\<close>

lemma refresh_401_never_settles:
  assumes "cl_accessToken cl = Some tok"
    and "getTokenInfo (env_now e k) cl = Info False"
    and "\<not> cl_refreshPromise cl"
    and "env_handshake e (handshakes cl) tok = Some msg"
    and "authentication_error msg"
    and "cl_refreshToken cl \<noteq> None"
    and "env_refresh e (refreshes cl) = Http401"
  shows "connectSocket (Suc n) e k cl
           = cl\<lparr>isConnected := False, trace := trace cl @ [Handshake, RefreshCall],
                cl_refreshPromise := True\<rparr>"
  using assms
  by (auto simp: ensureValidToken_def refreshAccessToken_def Let_def refreshes_def handshakes_def)

text \<open>
  C3, as amended.  When a handshake made with a stored, unexpired access token is rejected
  with an authentication-class error (and no refresh is pending), the client makes one
  rotation attempt for that rejection, with at most one refresh request.  If the request
  returns a new pair, the client stores it, disconnects the socket and runs
  \<^verbatim>\<open>connectSocket\<close> again, where a further rejection is handled in the same way.  If the
  request fails otherwise than by a reply 401 (no reply, or another error status), or if no
  refresh token is stored so that no request is sent, the client logs out: both tokens
  are cleared, the store is unauthenticated, and no further handshake is made.
\<close>

theorem connect_error_cycle:
  assumes "cl_accessToken cl = Some tok"
    and "getTokenInfo (env_now e k) cl = Info False"
    and "\<not> cl_refreshPromise cl"
    and "env_handshake e (handshakes cl) tok = Some msg"
    and "authentication_error msg"
  shows "(cl_refreshToken cl \<noteq> None \<and> env_refresh e (refreshes cl) = Http200 a r \<longrightarrow>
            connectSocket (Suc n) e k cl
              = connectSocket n e (Suc k)
                  (cl\<lparr>isConnected := False, cl_accessToken := Some a, cl_refreshToken := Some r,
                      trace := trace cl @ [Handshake, RefreshCall, SocketDisconnect]\<rparr>))
       \<and> (cl_refreshToken cl \<noteq> None \<and> env_refresh e (refreshes cl) = HttpFailure \<longrightarrow>
            connectSocket (Suc n) e k cl
              = cl\<lparr>cl_accessToken := None, cl_refreshToken := None, isAuthenticated := False,
                   isConnected := False, trace := trace cl @ [Handshake, RefreshCall, Logout]\<rparr>)
       \<and> (cl_refreshToken cl = None \<longrightarrow>
            connectSocket (Suc n) e k cl
              = cl\<lparr>cl_accessToken := None, cl_refreshToken := None, isAuthenticated := False,
                   isConnected := False, trace := trace cl @ [Handshake, Logout]\<rparr>)"
  using assms
  by (auto simp: ensureValidToken_def refreshAccessToken_def logout_def Let_def
                 refreshes_def handshakes_def)

theorem connect_error_cycle_witness:
  "connectSocket 1 rejecting 0 client0
     = client0\<lparr>trace := [Handshake, RefreshCall, SocketDisconnect]\<rparr>
   \<and> connectSocket 1 refresh_down 0 client0
     = client0\<lparr>cl_accessToken := None, cl_refreshToken := None, isAuthenticated := False,
               trace := [Handshake, RefreshCall, Logout]\<rparr>"
proof -
  have t: "cl_accessToken client0 = Some alice_access" by (simp add: client0_def)
  have i1: "getTokenInfo (env_now rejecting 0) client0 = Info False"
    using client0_token_info[of "[]"] by (simp add: rejecting_def client0_def)
  have i2: "getTokenInfo (env_now refresh_down 0) client0 = Info False"
    using client0_token_info[of "[]"] by (simp add: refresh_down_def client0_def)
  have p: "\<not> cl_refreshPromise client0" by (simp add: client0_def)
  have h1: "env_handshake rejecting (handshakes client0) alice_access = Some ''Invalid access token''"
    by (simp add: rejecting_def)
  have h2: "env_handshake refresh_down (handshakes client0) alice_access = Some ''Invalid access token''"
    by (simp add: refresh_down_def)
  note a = invalid_token_is_authentication_error
  have r1: "cl_refreshToken client0 \<noteq> None
            \<and> env_refresh rejecting (refreshes client0) = Http200 alice_access alice_refresh"
    by (simp add: client0_def rejecting_def)
  have r2: "cl_refreshToken client0 \<noteq> None \<and> env_refresh refresh_down (refreshes client0) = HttpFailure"
    by (simp add: client0_def refresh_down_def)
  show ?thesis
    using connect_error_cycle
            [where cl = client0 and tok = alice_access and e = rejecting and k = 0
               and msg = "''Invalid access token''" and a = alice_access and r = alice_refresh
               and n = 0, OF t i1 p h1 a]
          connect_error_cycle
            [where cl = client0 and tok = alice_access and e = refresh_down and k = 0
               and msg = "''Invalid access token''" and n = 0, OF t i2 p h2 a]
          r1 r2
    by (simp add: client0_def)
qed

text \<open>
  C3, as stated, fails: the number of retries is not bounded by one.  With every handshake
  rejected with ``Invalid access token'' and every refresh call successful, three
  connection attempts show three handshakes and three refresh calls, and the client is
  still authenticated and holds its tokens; lemma \<open>rejecting_never_stops\<close> shows the same
  for any number of attempts.
\<close>

theorem handshake_retried_without_bound:
  "handshakes (connectSocket 3 rejecting 0 client0) = 3
   \<and> refreshes (connectSocket 3 rejecting 0 client0) = 3
   \<and> logouts (connectSocket 3 rejecting 0 client0) = 0
   \<and> isAuthenticated (connectSocket 3 rejecting 0 client0)
   \<and> cl_refreshToken (connectSocket 3 rejecting 0 client0) = Some alice_refresh"
proof -
  have "connectSocket 3 rejecting 0 (client0\<lparr>trace := []\<rparr>)
          = client0\<lparr>trace := [] @ concat (replicate 3 [Handshake, RefreshCall, SocketDisconnect])\<rparr>"
    by (rule rejecting_never_stops)
  moreover have "client0\<lparr>trace := []\<rparr> = client0" by (simp add: client0_def)
  ultimately have "connectSocket 3 rejecting 0 client0
      = client0\<lparr>trace := concat (replicate 3 [Handshake, RefreshCall, SocketDisconnect])\<rparr>"
    by simp
  then show ?thesis
    by (simp add: handshakes_def refreshes_def logouts_def client0_def numeral_3_eq_3)
qed

end
